theory Spec2Isabelle
  imports Complex_Main "HOL-Library.AList"
begin

section \<open>Data model (api/models.py)\<close>

text \<open>
  The Django models are embedded as records, one per model class, and every database
  table as an association list from primary key to row, in storage order. \<open>map_of\<close> is
  the lookup by primary key, \<open>AList.update\<close> is \<open>Model.save()\<close> of an object that has a
  primary key (the row is rewritten in place when the key exists and inserted
  otherwise), \<open>filter\<close> is a queryset filter. The bookkeeping columns \<open>created_at\<close> and
  \<open>updated_at\<close> are left out of every record.
\<close>

datatype item_status =
    UPLOADED | PARSED | GEOCODED | GEOCODED_NO_RESULTS | MATCHED | POTENTIAL_MATCH
  | CONFIRMED_MATCH | ERROR | ERROR_PARSING | ERROR_GEOCODING | ERROR_MATCHING

datatype match_status = PENDING | AUTOMATIC | CONFIRMED | REJECTED

text \<open>
  Modelled from the spec: \<open>api.constants.ProcessingAction\<close> is imported by views.py but
  its module is not among the sources. The spec names the pipeline stages parse, geocode
  and match as action kinds; \<open>CONFIRM\<close> is the member the views refer to.
\<close>

datatype ProcessingAction = PARSE | GEOCODE | MATCH | CONFIRM

text \<open>Values stored in the JSON columns (\<open>processing_results\<close>, \<open>results\<close>).\<close>

datatype json = JString string | JBool bool | JAction ProcessingAction

type_synonym json_dict = "(string \<times> json) list"

text \<open>A point is only ever copied from an item to a facility, never computed with.\<close>

type_synonym point = "rat \<times> rat"

record Contributor =
  contributor_admin :: nat
  contributor_name :: string

record FacilityList =
  list_contributor :: "nat option"
  list_name :: string
  list_description :: "string option"
  list_file_name :: string
  list_header :: string
  list_is_active :: bool
  list_is_public :: bool
  list_replaces :: "nat option"

record FacilityListItem =
  item_facility_list :: nat
  item_row_index :: nat
  item_raw_data :: string
  item_status :: item_status
  item_processing_results :: "json_dict list"
  item_name :: string
  item_address :: string
  item_country_code :: string
  item_geocoded_point :: "point option"
  item_geocoded_address :: "string option"
  item_facility :: "string option"

record Facility =
  facility_name :: string
  facility_address :: string
  facility_country_code :: string
  facility_location :: point
  facility_created_from :: nat

record FacilityMatch =
  match_facility_list_item :: nat
  match_facility :: string
  match_results :: json_dict
  match_confidence :: rat
  match_status :: match_status

record db =
  db_contributors :: "(nat \<times> Contributor) list"
  db_lists :: "(nat \<times> FacilityList) list"
  db_items :: "(nat \<times> FacilityListItem) list"
  db_facilities :: "(string \<times> Facility) list"
  db_matches :: "(nat \<times> FacilityMatch) list"

datatype error =
    ValidationError string
  | NotFound
  | ContributorDoesNotExist
  | IntegrityError
  | DataError

text \<open>
  The key an \<open>AutoField\<close> gives to an inserted row: one that no row of the table has.
\<close>

definition next_pk :: "(nat \<times> 'r) list \<Rightarrow> nat" where
  "next_pk tbl = Suc (fold max (map fst tbl) 0)"

text \<open>
  \<open>@transaction.atomic\<close>: when the body raises, the database is as it was on entry.
\<close>

definition atomic :: "(db \<Rightarrow> (error + 'a) \<times> db) \<Rightarrow> db \<Rightarrow> (error + 'a) \<times> db" where
  "atomic body d =
     (case body d of
        (Inl e, _) \<Rightarrow> (Inl e, d)
      | (Inr r, d') \<Rightarrow> (Inr r, d'))"

section \<open>Match adjudication (api/views.py)\<close>

text \<open>
  What the views read of the request: \<open>request.user.contributor\<close> (\<open>None\<close> when the user
  has no contributor, where the attribute access raises) and the two entries of
  \<open>request.data\<close>.
\<close>

record request =
  user_contributor :: "nat option"
  list_item_id :: "nat option"
  facility_match_id :: "nat option"

record response =
  resp_item :: "nat \<times> FacilityListItem"
  resp_list_statuses :: "item_status list"

text \<open>
  The first statements of \<open>confirm_match\<close> and of \<open>reject_match\<close> are the same: the
  two request fields are required, then the list is fetched among the contributor's
  lists, the item among the list's items and the match among the item's matches. A
  missing row is \<open>DoesNotExist\<close>, which both views turn into \<open>NotFound\<close>.
\<close>

definition get_objects ::
  "request \<Rightarrow> nat \<Rightarrow> db \<Rightarrow> error + (nat \<times> FacilityListItem) \<times> (nat \<times> FacilityMatch)" where
  "get_objects request pk d =
     (case list_item_id request of
        None \<Rightarrow> Inl (ValidationError ''missing required list_item_id'')
      | Some iid \<Rightarrow>
     (case facility_match_id request of
        None \<Rightarrow> Inl (ValidationError ''missing required facility_match_id'')
      | Some mid \<Rightarrow>
     (case user_contributor request of
        None \<Rightarrow> Inl ContributorDoesNotExist
      | Some c \<Rightarrow>
     (case map_of (filter (\<lambda>(k, l). list_contributor l = Some c) (db_lists d)) pk of
        None \<Rightarrow> Inl NotFound
      | Some fl \<Rightarrow>
     (case map_of (filter (\<lambda>(k, i). item_facility_list i = pk) (db_items d)) iid of
        None \<Rightarrow> Inl NotFound
      | Some it \<Rightarrow>
     (case map_of (filter (\<lambda>(k, m). match_facility_list_item m = iid) (db_matches d)) mid of
        None \<Rightarrow> Inl NotFound
      | Some m \<Rightarrow> Inr ((iid, it), (mid, m))))))))"

text \<open>
  \<open>facility_list.facilitylistitem_set.values_list('status', flat=True).distinct()\<close>
\<close>

definition list_statuses :: "nat \<Rightarrow> db \<Rightarrow> item_status list" where
  "list_statuses pk d =
     remdups (map (\<lambda>(k, i). item_status i)
       (filter (\<lambda>(k, i). item_facility_list i = pk) (db_items d)))"

definition confirm_match_body :: "request \<Rightarrow> nat \<Rightarrow> db \<Rightarrow> (error + response) \<times> db" where
  "confirm_match_body request pk d =
     (case get_objects request pk d of
        Inl e \<Rightarrow> (Inl e, d)
      | Inr ((iid, it), (mid, m)) \<Rightarrow>
          if item_status it \<noteq> POTENTIAL_MATCH then
            (Inl (ValidationError ''facility list item status must be POTENTIAL_MATCH''), d)
          else if match_status m \<noteq> PENDING then
            (Inl (ValidationError ''facility match status must be PENDING''), d)
          else
            let m1 = m\<lparr>match_status := CONFIRMED\<rparr>;
                d1 = d\<lparr>db_matches := AList.update mid m1 (db_matches d)\<rparr>;
                d2 = d1\<lparr>db_matches :=
                       map (\<lambda>(k, x). if match_facility_list_item x = iid \<and> k \<noteq> mid
                                      then (k, x\<lparr>match_status := REJECTED\<rparr>) else (k, x))
                           (db_matches d1)\<rparr>;
                it1 = it\<lparr>item_status := CONFIRMED_MATCH,
                         item_facility := Some (match_facility m1)\<rparr>;
                d3 = d2\<lparr>db_items := AList.update iid it1 (db_items d2)\<rparr>
            in (Inr \<lparr>resp_item = (iid, it1), resp_list_statuses = list_statuses pk d3\<rparr>, d3))"

definition confirm_match :: "request \<Rightarrow> nat \<Rightarrow> db \<Rightarrow> (error + response) \<times> db" where
  "confirm_match request pk = atomic (confirm_match_body request pk)"

section \<open>Identifier allocation (Facility.save)\<close>

text \<open>
  \<open>api.oar_id.make_oar_id\<close> is not among the sources; it draws a fresh candidate on
  every call. It is a parameter here, with the state of its random source made
  explicit: \<open>make_oar_id g country_code\<close> is the candidate and the next state.

  The \<open>while\<close> loop of \<open>Facility.save\<close> draws candidates until one is not the key of a
  stored facility. It need not end, so the loop is a partial function and \<open>None\<close> is
  the run that draws forever.
\<close>

partial_function (option) Facility_save_loop ::
  "('g \<Rightarrow> string \<Rightarrow> string \<times> 'g) \<Rightarrow> string \<Rightarrow> (string \<times> Facility) list \<Rightarrow> 'g
     \<Rightarrow> (string \<times> 'g) option" where
  "Facility_save_loop make_oar_id country_code facilities g =
     (case make_oar_id g country_code of
        (new_id, g') \<Rightarrow>
          if map_of facilities new_id \<noteq> None
          then Facility_save_loop make_oar_id country_code facilities g'
          else Some (new_id, g'))"

text \<open>
  \<open>Model.save\<close> on the facility table. \<open>created_from\<close> is a one-to-one field, so a row
  whose seed item already seeds another facility is refused, and with \<open>force_insert\<close>
  (as \<open>objects.create\<close> saves) so is a key that is already stored. The text columns of
  a facility have the length limits of the item columns that \<open>reject_match\<close> copies
  into them, so the limits are not modelled here.
\<close>

definition Model_save_Facility ::
  "bool \<Rightarrow> string \<times> Facility \<Rightarrow> (string \<times> Facility) list
     \<Rightarrow> error + (string \<times> Facility) list" where
  "Model_save_Facility force_insert self facilities =
     (if force_insert \<and> map_of facilities (fst self) \<noteq> None then Inl IntegrityError
      else if \<exists>(k, f) \<in> set facilities.
                k \<noteq> fst self \<and> facility_created_from f = facility_created_from (snd self)
      then Inl IntegrityError
      else Inr (AList.update (fst self) (snd self) facilities))"

text \<open>
  \<open>Facility.save\<close>: the object is the pair of its \<open>id\<close> and its other fields. The
  result is the saved object with the new table, or the error of the insertion, and
  the state of the random source.
\<close>

definition Facility_save ::
  "('g \<Rightarrow> string \<Rightarrow> string \<times> 'g) \<Rightarrow> bool \<Rightarrow> string \<times> Facility \<Rightarrow> (string \<times> Facility) list \<Rightarrow> 'g
     \<Rightarrow> ((error + (string \<times> Facility) \<times> (string \<times> Facility) list) \<times> 'g) option" where
  "Facility_save make_oar_id force_insert self facilities g =
     (if fst self = '''' then
        (case Facility_save_loop make_oar_id (facility_country_code (snd self)) facilities g of
           None \<Rightarrow> None
         | Some (new_id, g') \<Rightarrow>
             Some (map_sum id (Pair (new_id, snd self))
                     (Model_save_Facility force_insert (new_id, snd self) facilities), g'))
      else
        Some (map_sum id (Pair self) (Model_save_Facility force_insert self facilities), g))"

text \<open>
  A run of insertions, each of an object whose \<open>id\<close> is empty, one after the other on
  the growing table, all saved with the same \<open>force_insert\<close>; the result lists the
  identifiers assigned, in order.
\<close>

fun Facility_save_all ::
  "('g \<Rightarrow> string \<Rightarrow> string \<times> 'g) \<Rightarrow> bool \<Rightarrow> Facility list \<Rightarrow> (string \<times> Facility) list \<Rightarrow> 'g
     \<Rightarrow> ((error + string list \<times> (string \<times> Facility) list) \<times> 'g) option" where
  "Facility_save_all make_oar_id force_insert [] facilities g = Some (Inr ([], facilities), g)"
| "Facility_save_all make_oar_id force_insert (f # fs) facilities g =
     (case Facility_save make_oar_id force_insert ('''', f) facilities g of
        None \<Rightarrow> None
      | Some (Inl e, g') \<Rightarrow> Some (Inl e, g')
      | Some (Inr (self, facilities'), g') \<Rightarrow>
          (case Facility_save_all make_oar_id force_insert fs facilities' g' of
             None \<Rightarrow> None
           | Some (Inl e, g'') \<Rightarrow> Some (Inl e, g'')
           | Some (Inr (ids, facilities''), g'') \<Rightarrow> Some (Inr (fst self # ids, facilities''), g'')))"

section \<open>Rejecting a match (api/views.py)\<close>

text \<open>
  \<open>utcnow\<close> is the text of \<open>str(datetime.utcnow())\<close> at the call. The body returns the
  outcome with the database as it stands when the view returns or raises; \<open>None\<close> is
  the run in which the allocation of an identifier never ends.
\<close>

definition error_entry :: "string \<Rightarrow> json_dict" where
  "error_entry timestamp =
     [(''action'', JAction CONFIRM),
      (''started_at'', JString timestamp),
      (''error'', JBool True),
      (''message'', JString
         ''Unable to create a new facility from an item with no geocoded location''),
      (''finished_at'', JString timestamp)]"

definition reject_match_body ::
  "('g \<Rightarrow> string \<Rightarrow> string \<times> 'g) \<Rightarrow> string \<Rightarrow> request \<Rightarrow> nat \<Rightarrow> db \<Rightarrow> 'g
     \<Rightarrow> (((error + response) \<times> db) \<times> 'g) option" where
  "reject_match_body make_oar_id utcnow request pk d g =
     (case get_objects request pk d of
        Inl e \<Rightarrow> Some ((Inl e, d), g)
      | Inr ((iid, it), (mid, m)) \<Rightarrow>
          if item_status it \<noteq> POTENTIAL_MATCH then
            Some ((Inl (ValidationError
                     ''facility list item status must be POTENTIAL_MATCH''), d), g)
          else if match_status m \<noteq> PENDING then
            Some ((Inl (ValidationError ''facility match status must be PENDING''), d), g)
          else
            let d1 = d\<lparr>db_matches :=
                       AList.update mid (m\<lparr>match_status := REJECTED\<rparr>) (db_matches d)\<rparr>;
                remaining_potential_matches =
                  filter (\<lambda>(k, x). match_facility_list_item x = iid \<and> match_status x = PENDING)
                    (db_matches d1)
            in
            if length remaining_potential_matches = 0 then
              let no_location = (item_geocoded_point it = None);
                  no_geocoding_results = (item_status it = GEOCODED_NO_RESULTS)
              in
              if no_location \<or> no_geocoding_results then
                let it1 = it\<lparr>item_status := ERROR_MATCHING,
                             item_processing_results :=
                               item_processing_results it @ [error_entry utcnow]\<rparr>;
                    d2 = d1\<lparr>db_items := AList.update iid it1 (db_items d1)\<rparr>
                in Some ((Inr \<lparr>resp_item = (iid, it1),
                               resp_list_statuses = list_statuses pk d2\<rparr>, d2), g)
              else
                (case item_geocoded_point it of
                   None \<Rightarrow> Some ((Inl IntegrityError, d1), g)
                 | Some location \<Rightarrow>
                (case Facility_save make_oar_id True
                        ('''', \<lparr>facility_name = item_name it,
                               facility_address = item_address it,
                               facility_country_code = item_country_code it,
                               facility_location = location,
                               facility_created_from = iid\<rparr>)
                        (db_facilities d1) g of
                   None \<Rightarrow> None
                 | Some (Inl e, g') \<Rightarrow> Some ((Inl e, d1), g')
                 | Some (Inr (new_facility, facilities'), g') \<Rightarrow>
                     let d2 = d1\<lparr>db_facilities := facilities'\<rparr>;
                         match_results =
                           [(''match_type'', JString ''all_potential_matches_rejected'')];
                         d3 = d2\<lparr>db_matches := db_matches d2 @
                                [(next_pk (db_matches d2),
                                  \<lparr>match_facility_list_item = iid,
                                   match_facility = fst new_facility,
                                   match_results = match_results,
                                   match_confidence = 1,
                                   match_status = CONFIRMED\<rparr>)]\<rparr>;
                         it1 = it\<lparr>item_facility := Some (fst new_facility),
                                  item_status := CONFIRMED_MATCH\<rparr>;
                         d4 = d3\<lparr>db_items := AList.update iid it1 (db_items d3)\<rparr>
                     in Some ((Inr \<lparr>resp_item = (iid, it1),
                                    resp_list_statuses = list_statuses pk d4\<rparr>, d4), g')))
            else
              Some ((Inr \<lparr>resp_item = (iid, it),
                          resp_list_statuses = list_statuses pk d1\<rparr>, d1), g))"

definition reject_match ::
  "('g \<Rightarrow> string \<Rightarrow> string \<times> 'g) \<Rightarrow> string \<Rightarrow> request \<Rightarrow> nat \<Rightarrow> db \<Rightarrow> 'g
     \<Rightarrow> (((error + response) \<times> db) \<times> 'g) option" where
  "reject_match make_oar_id utcnow request pk d g =
     map_option (\<lambda>(outcome, g'). (atomic (\<lambda>_. outcome) d, g'))
       (reject_match_body make_oar_id utcnow request pk d g)"

section \<open>Uploading a list (FacilityListViewSet.create)\<close>

text \<open>
  The uploaded file as the view reads it: its name, its size and its lines, each line
  being the outcome of \<open>line.decode().rstrip()\<close> (\<open>None\<close> where decoding raises
  \<open>UnicodeDecodeError\<close>). Iterating a Django upload starts again at its first line,
  so the header that \<open>readline\<close> returned is line 0 of the loop.
\<close>

record uploaded_file =
  file_name :: string
  file_size :: nat
  file_lines :: "string option list"

datatype file_field = InMemoryUploadedFile uploaded_file | OtherType

text \<open>
  \<open>data_replaces\<close> is \<open>None\<close> when the key is absent, \<open>Some None\<close> when \<open>int(...)\<close>
  raises \<open>ValueError\<close>, and the integer otherwise.
\<close>

record upload_request =
  upload_user_contributor :: "nat option"
  data_file :: "file_field option"
  data_name :: "string option"
  data_description :: "string option"
  data_replaces :: "int option option"

text \<open>
  What \<open>create\<close> takes from modules that are not among the sources (\<open>oar.settings\<close>,
  \<open>api.constants\<close>, \<open>api.processing\<close>) and from the standard library:
  \<open>max_size_text\<close> is the maximum size formatted in megabytes with one decimal,
  \<open>splitext_root name\<close> is \<open>os.path.splitext(name)[0]\<close>.
\<close>

record settings =
  MAX_UPLOADED_FILE_SIZE_IN_BYTES :: nat
  max_size_text :: string
  ENVIRONMENT :: string
  CsvHeaderField_COUNTRY :: string
  CsvHeaderField_NAME :: string
  CsvHeaderField_ADDRESS :: string
  parse_csv_line :: "string \<Rightarrow> string list"
  splitext_root :: "string \<Rightarrow> string"

record create_response =
  created_list :: "nat \<times> FacilityList"
  submitted_jobs :: bool

text \<open>\<open>str.lower\<close> on ASCII letters, and \<open>str\<close> of an integer.\<close>

definition lower :: "string \<Rightarrow> string" where
  "lower s =
     map (\<lambda>c. case map_of (zip ''ABCDEFGHIJKLMNOPQRSTUVWXYZ'' ''abcdefghijklmnopqrstuvwxyz'') c of
                None \<Rightarrow> c
              | Some l \<Rightarrow> l) s"

fun str_nat :: "nat \<Rightarrow> string" where
  "str_nat n =
     (if n < 10 then [''0123456789'' ! n]
      else str_nat (n div 10) @ [''0123456789'' ! (n mod 10)])"

declare str_nat.simps [simp del]

definition str_int :: "int \<Rightarrow> string" where
  "str_int i = (if i < 0 then CHR ''-'' # str_nat (nat (- i)) else str_nat (nat i))"

definition validate_header :: "settings \<Rightarrow> string \<Rightarrow> error option" where
  "validate_header s header =
     (if header = '''' then Some (ValidationError ''Header cannot be blank.'')
      else
        let parsed_header = map lower (parse_csv_line s header) in
        if CsvHeaderField_COUNTRY s \<notin> set parsed_header
           \<or> CsvHeaderField_NAME s \<notin> set parsed_header
           \<or> CsvHeaderField_ADDRESS s \<notin> set parsed_header
        then Some (ValidationError
               (''Header must contain '' @ CsvHeaderField_COUNTRY s @ '', '' @
                CsvHeaderField_NAME s @ '', and '' @ CsvHeaderField_ADDRESS s @ '' fields.''))
        else None)"

text \<open>\<open>csv_file.readline().decode().rstrip()\<close>; an empty file reads as the empty line.\<close>

definition readline :: "uploaded_file \<Rightarrow> string option" where
  "readline csv_file = (case file_lines csv_file of [] \<Rightarrow> Some '''' | l # _ \<Rightarrow> l)"

text \<open>
  Lines 637 to 652: the list to replace. It is looked up among the lists of the
  uploading contributor, and refused when some list already replaces it.
\<close>

definition find_replaces ::
  "upload_request \<Rightarrow> nat \<Rightarrow> db \<Rightarrow> error + (nat \<times> FacilityList) option" where
  "find_replaces request contributor d =
     (case data_replaces request of
        None \<Rightarrow> Inr None
      | Some None \<Rightarrow> Inl (ValidationError ''\"replaces\" must be an integer ID.'')
      | Some (Some replaces) \<Rightarrow>
          let old_list_qs =
                filter (\<lambda>(k, l). list_contributor l = Some contributor \<and> int k = replaces)
                  (db_lists d)
          in (case old_list_qs of
                [] \<Rightarrow> Inl (ValidationError
                            (str_int replaces @ '' is not a valid FacilityList ID.''))
              | old # _ \<Rightarrow>
                  if length (filter (\<lambda>(k, l). list_replaces l = Some (fst old)) (db_lists d)) > 0
                  then Inl (ValidationError
                              (''FacilityList '' @ str_nat (fst old) @
                               '' has already been replaced.''))
                  else Inr (Some old)))"

text \<open>
  The rows after the header, as new items in status \<open>UPLOADED\<close> with the defaults of
  the other columns; \<open>None\<close> when a row does not decode.
\<close>

definition new_items :: "nat \<Rightarrow> uploaded_file \<Rightarrow> FacilityListItem list option" where
  "new_items new_list csv_file =
     map_option
       (\<lambda>rows. map (\<lambda>(idx, line).
                  \<lparr>item_facility_list = new_list, item_row_index = idx - 1,
                   item_raw_data = line, item_status = UPLOADED,
                   item_processing_results = [], item_name = '''', item_address = '''',
                   item_country_code = '''', item_geocoded_point = None,
                   item_geocoded_address = None, item_facility = None\<rparr>)
               (zip [1 ..< Suc (length rows)] rows))
       (those (drop 1 (file_lines csv_file)))"

definition bulk_create :: "'r list \<Rightarrow> (nat \<times> 'r) list \<Rightarrow> (nat \<times> 'r) list" where
  "bulk_create rows tbl = fold (\<lambda>r t. t @ [(next_pk t, r)]) rows tbl"

text \<open>
  \<open>create\<close>. The first row written is the new list. Its \<open>name\<close> and \<open>file_name\<close> are
  columns of at most 200 characters and come from the request unchecked, so the
  insertion of a longer one fails in the database with \<open>DataError\<close>. The list to replace
  is saved next, then the items; an error after the first write leaves the database of
  the body changed, and \<open>atomic\<close> restores it.
\<close>

definition create_body ::
  "settings \<Rightarrow> upload_request \<Rightarrow> db \<Rightarrow> (error + create_response) \<times> db" where
  "create_body s request d =
     (case data_file request of
        None \<Rightarrow> (Inl (ValidationError ''No file specified.''), d)
      | Some OtherType \<Rightarrow> (Inl (ValidationError ''File not submitted properly.''), d)
      | Some (InMemoryUploadedFile csv_file) \<Rightarrow>
     if file_size csv_file > MAX_UPLOADED_FILE_SIZE_IN_BYTES s then
       (Inl (ValidationError
          (''Uploaded file exceeds the maximum size of '' @ max_size_text s @ ''MB.'')), d)
     else
     (case readline csv_file of
        None \<Rightarrow> (Inl (ValidationError
                   ''Unsupported file encoding. Please submit a UTF-8 CSV.''), d)
      | Some header \<Rightarrow>
     (case validate_header s header of
        Some e \<Rightarrow> (Inl e, d)
      | None \<Rightarrow>
     (case upload_user_contributor request of
        None \<Rightarrow> (Inl (ValidationError ''User contributor cannot be None''), d)
      | Some contributor \<Rightarrow>
     let name = (case data_name request of
                   Some n \<Rightarrow> n
                 | None \<Rightarrow> splitext_root s (file_name csv_file));
         description = data_description request
     in
     (case find_replaces request contributor d of
        Inl e \<Rightarrow> (Inl e, d)
      | Inr replaces \<Rightarrow>
     let new_list = (next_pk (db_lists d),
                     \<lparr>list_contributor = Some contributor, list_name = name,
                      list_description = description, list_file_name = file_name csv_file,
                      list_header = header, list_is_active = True, list_is_public = True,
                      list_replaces = map_option fst replaces\<rparr>)
     in
     if 200 < length (list_name (snd new_list)) \<or> 200 < length (list_file_name (snd new_list))
     then (Inl DataError, d)
     else
     let d1 = d\<lparr>db_lists := db_lists d @ [new_list]\<rparr>;
         d2 = (case replaces of
                 None \<Rightarrow> d1
               | Some (old_pk, old) \<Rightarrow>
                   d1\<lparr>db_lists :=
                        AList.update old_pk (old\<lparr>list_is_active := False\<rparr>) (db_lists d1)\<rparr>)
     in
     (case new_items (fst new_list) csv_file of
        None \<Rightarrow> (Inl (ValidationError
                   ''Unsupported file encoding. Please submit a UTF-8 CSV.''), d2)
      | Some items \<Rightarrow>
          let d3 = d2\<lparr>db_items := bulk_create items (db_items d2)\<rparr>
          in (Inr \<lparr>created_list = new_list,
                   submitted_jobs = (ENVIRONMENT s \<in> {''Staging'', ''Production''})\<rparr>,
              d3)))))))"

definition create :: "settings \<Rightarrow> upload_request \<Rightarrow> db \<Rightarrow> (error + create_response) \<times> db" where
  "create s request = atomic (create_body s request)"

section \<open>Derived views of a facility (api/models.py)\<close>

text \<open>
  The three methods start with the same list comprehension: the items of the
  facility's matches whose status is \<open>AUTOMATIC\<close> or \<open>CONFIRMED\<close>, each fetched by
  primary key. \<open>None\<close> is the \<open>DoesNotExist\<close> of a fetch that finds no row.
\<close>

definition facility_list_item_matches :: "db \<Rightarrow> string \<Rightarrow> FacilityListItem list option" where
  "facility_list_item_matches d self_id =
     those (map (\<lambda>(k, m). map_of (db_items d) (match_facility_list_item m))
       (filter (\<lambda>(k, m). match_facility m = self_id \<and> match_status m \<in> set [AUTOMATIC, CONFIRMED])
          (db_matches d)))"

text \<open>
  The set comprehension of \<open>other_names\<close> and \<open>other_addresses\<close>, for the column
  \<open>field\<close>. The conditions are tested from left to right, so the list of an item is
  only fetched for a value that is not empty and differs from the facility's own.
  (\<open>match.name is not None\<close> holds of every string.)
\<close>

primrec other_values ::
  "db \<Rightarrow> (FacilityListItem \<Rightarrow> string) \<Rightarrow> string \<Rightarrow> FacilityListItem list \<Rightarrow> string set option" where
  "other_values d field self_value [] = Some {}"
| "other_values d field self_value (match # rest) =
     (if length (field match) \<noteq> 0 \<and> field match \<noteq> self_value then
        (case map_of (db_lists d) (item_facility_list match) of
           None \<Rightarrow> None
         | Some fl \<Rightarrow>
             map_option
               (\<lambda>S. if list_is_active fl \<and> list_is_public fl then insert (field match) S else S)
               (other_values d field self_value rest))
      else other_values d field self_value rest)"

definition other_names :: "db \<Rightarrow> string \<times> Facility \<Rightarrow> string set option" where
  "other_names d self =
     (case facility_list_item_matches d (fst self) of
        None \<Rightarrow> None
      | Some ms \<Rightarrow> other_values d item_name (facility_name (snd self)) ms)"

definition other_addresses :: "db \<Rightarrow> string \<times> Facility \<Rightarrow> string set option" where
  "other_addresses d self =
     (case facility_list_item_matches d (fst self) of
        None \<Rightarrow> None
      | Some ms \<Rightarrow> other_values d item_address (facility_address (snd self)) ms)"

text \<open>
  The dictionary comprehension of \<open>contributors\<close>: the entries are made in the order
  of the items, and a later entry with the same key replaces the value of the earlier
  one. The key is \<open>"{} ({})".format(contributor.name, facility_list.name)\<close>, the value
  is the primary key of the contributor's admin account.
\<close>

definition contributor_label :: "Contributor \<Rightarrow> FacilityList \<Rightarrow> string" where
  "contributor_label c fl = contributor_name c @ '' ('' @ list_name fl @ '')''"

fun contributors_dict ::
  "db \<Rightarrow> FacilityListItem list \<Rightarrow> (string \<times> nat) list \<Rightarrow> (string \<times> nat) list option" where
  "contributors_dict d [] acc = Some acc"
| "contributors_dict d (match # rest) acc =
     (case map_of (db_lists d) (item_facility_list match) of
        None \<Rightarrow> None
      | Some fl \<Rightarrow>
          if list_is_active fl \<and> list_is_public fl then
            (case list_contributor fl of
               None \<Rightarrow> contributors_dict d rest acc
             | Some cid \<Rightarrow>
                 (case map_of (db_contributors d) cid of
                    None \<Rightarrow> None
                  | Some c \<Rightarrow>
                      contributors_dict d rest
                        (AList.update (contributor_label c fl) (contributor_admin c) acc)))
          else contributors_dict d rest acc)"

definition contributors :: "db \<Rightarrow> string \<times> Facility \<Rightarrow> (string \<times> nat) list option" where
  "contributors d self =
     (case facility_list_item_matches d (fst self) of
        None \<Rightarrow> None
      | Some ms \<Rightarrow> contributors_dict d ms [])"

section \<open>Properties of a database state\<close>

text \<open>Primary keys are unique in every table.\<close>

definition pk_unique :: "db \<Rightarrow> bool" where
  "pk_unique d \<longleftrightarrow>
     distinct (map fst (db_contributors d)) \<and> distinct (map fst (db_lists d)) \<and>
     distinct (map fst (db_items d)) \<and> distinct (map fst (db_facilities d)) \<and>
     distinct (map fst (db_matches d))"

text \<open>
  Foreign keys point at stored rows: a match at its item, an item at its list, a list
  at its contributor when it has one.
\<close>

definition fk_valid :: "db \<Rightarrow> bool" where
  "fk_valid d \<longleftrightarrow>
     (\<forall>(k, m) \<in> set (db_matches d). map_of (db_items d) (match_facility_list_item m) \<noteq> None) \<and>
     (\<forall>(k, i) \<in> set (db_items d). map_of (db_lists d) (item_facility_list i) \<noteq> None) \<and>
     (\<forall>(k, l) \<in> set (db_lists d).
        case list_contributor l of None \<Rightarrow> True
        | Some cid \<Rightarrow> map_of (db_contributors d) cid \<noteq> None)"

text \<open>The matches of an item that await adjudication, and those that stand as its match.\<close>

definition pending_matches :: "db \<Rightarrow> nat \<Rightarrow> (nat \<times> FacilityMatch) list" where
  "pending_matches d iid =
     filter (\<lambda>(k, m). match_facility_list_item m = iid \<and> match_status m = PENDING) (db_matches d)"

definition positive_matches :: "db \<Rightarrow> nat \<Rightarrow> (nat \<times> FacilityMatch) list" where
  "positive_matches d iid =
     filter (\<lambda>(k, m). match_facility_list_item m = iid \<and>
                      (match_status m = AUTOMATIC \<or> match_status m = CONFIRMED))
       (db_matches d)"


text \<open>
  An item that awaits adjudication has no standing match: the candidate matches of an
  item in status \<open>POTENTIAL_MATCH\<close> all start \<open>PENDING\<close>, and the only writers of
  \<open>CONFIRMED\<close> in \<open>views.py\<close>, \<open>confirm_match\<close> and \<open>reject_match\<close>, move the item to
  \<open>CONFIRMED_MATCH\<close> in the same transaction.
\<close>

definition potential_unmatched :: "db \<Rightarrow> bool" where
  "potential_unmatched d \<longleftrightarrow>
     (\<forall>(k, it) \<in> set (db_items d).
        item_status it = POTENTIAL_MATCH \<longrightarrow> positive_matches d k = [])"

text \<open>
  The random source reaches, within \<open>n\<close> further draws from state \<open>g\<close>, a candidate that
  is not the key of a stored facility.
\<close>

fun finds_free ::
  "('g \<Rightarrow> string \<Rightarrow> string \<times> 'g) \<Rightarrow> string \<Rightarrow> (string \<times> Facility) list \<Rightarrow> nat \<Rightarrow> 'g \<Rightarrow> bool" where
  "finds_free make_oar_id country_code facilities 0 g =
     (map_of facilities (fst (make_oar_id g country_code)) = None)"
| "finds_free make_oar_id country_code facilities (Suc n) g =
     (map_of facilities (fst (make_oar_id g country_code)) = None \<or>
      finds_free make_oar_id country_code facilities n (snd (make_oar_id g country_code)))"

subsection \<open>The derived views in the words of the spec\<close>

text \<open>
  The items that qualify for the views of facility \<open>fid\<close>, each with its list: the item
  of a match of the facility with status \<open>AUTOMATIC\<close> or \<open>CONFIRMED\<close>, whose list is
  active and public.
\<close>

definition spec_qualifying :: "db \<Rightarrow> string \<Rightarrow> (FacilityListItem \<times> FacilityList) set" where
  "spec_qualifying d fid =
     {(it, fl). \<exists>(k, m) \<in> set (db_matches d).
        match_facility m = fid \<and> (match_status m = AUTOMATIC \<or> match_status m = CONFIRMED) \<and>
        map_of (db_items d) (match_facility_list_item m) = Some it \<and>
        map_of (db_lists d) (item_facility_list it) = Some fl \<and>
        list_is_active fl \<and> list_is_public fl}"

definition spec_other_values ::
  "db \<Rightarrow> (FacilityListItem \<Rightarrow> string) \<Rightarrow> string \<Rightarrow> string \<Rightarrow> string set" where
  "spec_other_values d field fid self_value =
     {field it | it fl. (it, fl) \<in> spec_qualifying d fid \<and> field it \<noteq> '''' \<and> field it \<noteq> self_value}"

text \<open>The distinct contributing organizations, as the contributors' primary keys.\<close>

definition spec_contributors :: "db \<Rightarrow> string \<Rightarrow> nat set" where
  "spec_contributors d fid =
     {cid. \<exists>(it, fl) \<in> spec_qualifying d fid. list_contributor fl = Some cid}"

text \<open>The entries that the view of the contributors can hold: label and admin account.\<close>

definition qualifying_entries :: "db \<Rightarrow> string \<Rightarrow> (string \<times> nat) set" where
  "qualifying_entries d fid =
     {(contributor_label c fl, contributor_admin c) | c fl it cid.
        (it, fl) \<in> spec_qualifying d fid \<and> list_contributor fl = Some cid \<and>
        map_of (db_contributors d) cid = Some c}"

text \<open>The entries that the items of a list give to the dictionary of contributors.\<close>

definition item_entries :: "db \<Rightarrow> FacilityListItem list \<Rightarrow> (string \<times> nat) set" where
  "item_entries d its =
     {(contributor_label c fl, contributor_admin c) | c fl it cid.
        it \<in> set its \<and> map_of (db_lists d) (item_facility_list it) = Some fl \<and>
        list_is_active fl \<and> list_is_public fl \<and> list_contributor fl = Some cid \<and>
        map_of (db_contributors d) cid = Some c}"

section \<open>Example states\<close>

text \<open>
  A small registry: contributor 1 owns list 1, contributor 2 owns list 2. Item 1 of
  list 1 awaits adjudication between the facilities of items 2 and 3.
\<close>

definition ex_item :: FacilityListItem where
  "ex_item =
     \<lparr>item_facility_list = 1, item_row_index = 0, item_raw_data = ''US,Mill,1 Road'',
      item_status = POTENTIAL_MATCH, item_processing_results = [], item_name = ''Mill'',
      item_address = ''1 Road'', item_country_code = ''US'',
      item_geocoded_point = Some (1, 2), item_geocoded_address = Some ''1 Road'',
      item_facility = None\<rparr>"

definition ex_match :: "string \<Rightarrow> match_status \<Rightarrow> FacilityMatch" where
  "ex_match fid st =
     \<lparr>match_facility_list_item = 1, match_facility = fid, match_results = [],
      match_confidence = 1 / 2, match_status = st\<rparr>"

definition ex_list :: "nat \<Rightarrow> string \<Rightarrow> FacilityList" where
  "ex_list cid name =
     \<lparr>list_contributor = Some cid, list_name = name, list_description = None,
      list_file_name = name @ ''.csv'', list_header = ''country,name,address'',
      list_is_active = True, list_is_public = True, list_replaces = None\<rparr>"

definition ex_db :: db where
  "ex_db =
     \<lparr>db_contributors =
        [(1, \<lparr>contributor_admin = 10, contributor_name = ''Acme''\<rparr>),
         (2, \<lparr>contributor_admin = 20, contributor_name = ''Brand''\<rparr>)],
      db_lists = [(1, ex_list 1 ''spring''), (2, ex_list 2 ''autumn'')],
      db_items =
        [(1, ex_item),
         (2, ex_item\<lparr>item_row_index := 1, item_name := ''Mill One'', item_status := MATCHED,
                     item_facility := Some ''F1''\<rparr>),
         (3, ex_item\<lparr>item_facility_list := 2, item_address := ''2 Road'',
                     item_status := MATCHED, item_facility := Some ''F2''\<rparr>)],
      db_facilities =
        [(''F1'', \<lparr>facility_name = ''Mill One'', facility_address = ''1 Road'',
                   facility_country_code = ''US'', facility_location = (1, 2),
                   facility_created_from = 2\<rparr>),
         (''F2'', \<lparr>facility_name = ''Mill'', facility_address = ''2 Road'',
                   facility_country_code = ''US'', facility_location = (1, 3),
                   facility_created_from = 3\<rparr>)],
      db_matches =
        [(1, ex_match ''F1'' PENDING),
         (2, ex_match ''F2'' PENDING),
         (3, (ex_match ''F1'' AUTOMATIC)\<lparr>match_facility_list_item := 2\<rparr>),
         (4, (ex_match ''F2'' AUTOMATIC)\<lparr>match_facility_list_item := 3\<rparr>)]\<rparr>"

definition ex_request :: request where
  "ex_request = \<lparr>user_contributor = Some 1, list_item_id = Some 1, facility_match_id = Some 1\<rparr>"

text \<open>The same state with match 2 given the status \<open>st\<close>.\<close>

definition ex_db_with :: "match_status \<Rightarrow> db" where
  "ex_db_with st =
     ex_db\<lparr>db_matches := AList.update 2 (ex_match ''F2'' st) (db_matches ex_db)\<rparr>"

text \<open>The same state again, the item not geocoded.\<close>

definition ex_db_no_point :: db where
  "ex_db_no_point =
     (ex_db_with REJECTED)\<lparr>db_items :=
        AList.update 1 (ex_item\<lparr>item_geocoded_point := None, item_geocoded_address := None\<rparr>)
          (db_items ex_db)\<rparr>"

text \<open>
  A source of candidates that first draws the identifier of a stored facility and then
  longer and longer fresh ones.
\<close>

definition ex_make_oar_id :: "nat \<Rightarrow> string \<Rightarrow> string \<times> nat" where
  "ex_make_oar_id g country_code =
     (if g = 0 then ''F1'' else country_code @ replicate g (CHR ''7''), Suc g)"

definition ex_facility :: "nat \<Rightarrow> Facility" where
  "ex_facility seed =
     \<lparr>facility_name = ''Mill'', facility_address = ''1 Road'', facility_country_code = ''US'',
      facility_location = (1, 2), facility_created_from = seed\<rparr>"







text \<open>
  A registry in which one contributor has two active public lists, each with an item
  matched to the same facility.
\<close>

definition ex_registry_item :: "nat \<Rightarrow> string \<Rightarrow> FacilityListItem" where
  "ex_registry_item l name =
     ex_item\<lparr>item_facility_list := l, item_name := name, item_status := MATCHED,
             item_facility := Some ''F1''\<rparr>"

definition ex_registry :: db where
  "ex_registry =
     \<lparr>db_contributors = [(7, \<lparr>contributor_admin = 10, contributor_name = ''Acme''\<rparr>)],
      db_lists = [(11, ex_list 7 ''spring''), (12, ex_list 7 ''autumn'')],
      db_items = [(21, ex_registry_item 11 ''Mill''), (22, ex_registry_item 12 ''Mill Ltd'')],
      db_facilities = [(''F1'', ex_facility 21)],
      db_matches =
        [(31, (ex_match ''F1'' AUTOMATIC)\<lparr>match_facility_list_item := 21\<rparr>),
         (32, (ex_match ''F1'' CONFIRMED)\<lparr>match_facility_list_item := 22\<rparr>)]\<rparr>"

section \<open>Lookups in tables\<close>

lemma map_of_filter_distinct:
  "distinct (map fst al) \<Longrightarrow>
     map_of (filter P al) k =
       (case map_of al k of None \<Rightarrow> None | Some v \<Rightarrow> if P (k, v) then Some v else None)"
proof (induction al)
  case Nil
  then show ?case by simp
next
  case (Cons a al)
  obtain k' v' where a: "a = (k', v')" by (cases a)
  have notin: "map_of al k' = None"
    using Cons.prems a by (simp add: map_of_eq_None_iff)
  show ?case
    using Cons a notin by (cases "k = k'") auto
qed

text \<open>
  When primary keys are unique, the objects that both views fetch are the rows stored
  under the two keys of the request, the list being one of the contributor's, the item
  one of the list's and the match one of the item's.
\<close>

lemma get_objects_Inr:
  assumes "pk_unique d"
  shows "get_objects request pk d = Inr ((iid, it), (mid, m)) \<longleftrightarrow>
           list_item_id request = Some iid \<and> facility_match_id request = Some mid \<and>
           (\<exists>c fl. user_contributor request = Some c \<and> map_of (db_lists d) pk = Some fl \<and>
                   list_contributor fl = Some c) \<and>
           map_of (db_items d) iid = Some it \<and> item_facility_list it = pk \<and>
           map_of (db_matches d) mid = Some m \<and> match_facility_list_item m = iid"
  using assms
  by (auto simp add: get_objects_def pk_unique_def map_of_filter_distinct
           simp del: map_of_eq_Some_iff split: option.splits if_splits)

lemma map_of_update_others:
  "map_of (map (\<lambda>(k, x). if P k x then (k, f x) else (k, x)) al) k =
     map_option (\<lambda>x. if P k x then f x else x) (map_of al k)"
  by (induction al) auto

section \<open>Filters over an updated table\<close>

lemma filter_update_distinct:
  "distinct (map fst al) \<Longrightarrow> \<not> P (k, v') \<Longrightarrow>
     filter P (AList.update k v' al) = filter (\<lambda>kv. P kv \<and> fst kv \<noteq> k) al"
proof (induction al)
  case Nil
  then show ?case by simp
next
  case (Cons a al)
  have "filter (\<lambda>kv. P kv \<and> fst kv \<noteq> k) al = filter P al" if "k \<notin> fst ` set al"
    using that by (intro filter_cong) auto
  with Cons show ?case by (cases a) auto
qed

lemma length_filter_except_key:
  "distinct (map fst al) \<Longrightarrow>
     length (filter P al) \<le> Suc (length (filter (\<lambda>kv. P kv \<and> fst kv \<noteq> k) al))"
proof (induction al)
  case Nil
  then show ?case by simp
next
  case (Cons a al)
  have "filter (\<lambda>kv. P kv \<and> fst kv \<noteq> k) al = filter P al" if "k \<notin> fst ` set al"
    using that by (intro filter_cong) auto
  with Cons show ?case by (cases a) auto
qed

lemma update_append:
  "map_of al k = None \<Longrightarrow> AList.update k v al = al @ [(k, v)]"
  by (induction al) (auto split: if_splits)

section \<open>Fresh keys\<close>

lemma fold_max_ge: "a \<le> fold max xs (a::nat) \<and> (\<forall>x \<in> set xs. x \<le> fold max xs a)"
proof (induction xs arbitrary: a)
  case Nil
  then show ?case by simp
next
  case (Cons x xs)
  from Cons [of "max x a"] show ?case by auto
qed

lemma next_pk_fresh: "next_pk tbl \<notin> fst ` set tbl"
proof
  assume "next_pk tbl \<in> fst ` set tbl"
  then have "next_pk tbl \<in> set (map fst tbl)" by simp
  with fold_max_ge [of 0 "map fst tbl"] have "next_pk tbl \<le> fold max (map fst tbl) 0"
    by blast
  then show False by (simp add: next_pk_def)
qed

lemma next_pk_update:
  "map_of tbl k = Some v \<Longrightarrow> next_pk (AList.update k v' tbl) = next_pk tbl"
proof -
  assume "map_of tbl k = Some v"
  then have "k \<in> set (map fst tbl)"
    by (metis map_of_eq_None_iff option.distinct(1) set_map)
  then show ?thesis
    by (simp add: next_pk_def update_keys)
qed

section \<open>The allocation loop\<close>

text \<open>A candidate that the loop returns is not the key of a stored facility.\<close>

lemma Facility_save_loop_unused_aux:
  assumes "Facility_save_loop make_oar_id country_code facilities g = Some y"
  shows "map_of facilities (fst y) = None"
  by (rule Facility_save_loop.raw_induct
        [where P = "\<lambda>mk cc tbl g y. map_of tbl (fst y) = None", OF _ assms])
     (auto split: prod.splits if_splits)

lemma Facility_save_loop_unused:
  "Facility_save_loop make_oar_id country_code facilities g = Some (new_id, g') \<Longrightarrow>
     map_of facilities new_id = None"
  using Facility_save_loop_unused_aux by fastforce

text \<open>The loop returns when the source reaches an unused candidate.\<close>

lemma Facility_save_loop_finds:
  "finds_free make_oar_id country_code facilities n g \<Longrightarrow>
     \<exists>new_id g'. Facility_save_loop make_oar_id country_code facilities g = Some (new_id, g')"
proof (induction n arbitrary: g)
  case 0
  then show ?case
    by (subst Facility_save_loop.simps) (auto split: prod.splits)
next
  case (Suc n)
  show ?case
  proof (cases "map_of facilities (fst (make_oar_id g country_code)) = None")
    case True
    then show ?thesis
      by (subst Facility_save_loop.simps) (auto split: prod.splits)
  next
    case False
    with Suc.prems
    have "finds_free make_oar_id country_code facilities n (snd (make_oar_id g country_code))"
      by simp
    from Suc.IH [OF this] False show ?thesis
      by (subst Facility_save_loop.simps) (auto split: prod.splits)
  qed
qed

lemma Facility_save_new:
  assumes "finds_free make_oar_id (facility_country_code f) facilities n g"
    and "\<forall>(k, x) \<in> set facilities. facility_created_from x \<noteq> facility_created_from f"
  shows "\<exists>new_id g'. Facility_save make_oar_id True ('''', f) facilities g =
           Some (Inr ((new_id, f), facilities @ [(new_id, f)]), g') \<and>
           map_of facilities new_id = None"
proof -
  from Facility_save_loop_finds [OF assms(1)] obtain new_id g'
    where l: "Facility_save_loop make_oar_id (facility_country_code f) facilities g =
                Some (new_id, g')"
    by blast
  have u: "map_of facilities new_id = None"
    by (rule Facility_save_loop_unused [OF l])
  have "\<not> (\<exists>(k, x) \<in> set facilities.
              k \<noteq> new_id \<and> facility_created_from x = facility_created_from f)"
    using assms(2) by auto
  with l u show ?thesis
    by (simp add: Facility_save_def Model_save_Facility_def update_append)
qed

section \<open>The branches of \<open>reject_match\<close>\<close>

lemma reject_match_remaining:
  assumes "pk_unique d"
  shows "filter (\<lambda>(k, x). match_facility_list_item x = iid \<and> match_status x = PENDING)
           (AList.update mid (m\<lparr>match_status := REJECTED\<rparr>) (db_matches d)) =
         filter (\<lambda>kv. fst kv \<noteq> mid) (pending_matches d iid)"
proof -
  have "distinct (map fst (db_matches d))"
    using assms by (simp add: pk_unique_def)
  then show ?thesis
    by (subst filter_update_distinct) (auto simp: pending_matches_def intro: filter_cong)
qed

lemma reject_match_Inr:
  "reject_match make_oar_id utcnow request pk d g = Some ((Inr resp, d'), g') \<longleftrightarrow>
     reject_match_body make_oar_id utcnow request pk d g = Some ((Inr resp, d'), g')"
  by (cases "reject_match_body make_oar_id utcnow request pk d g")
     (auto simp: reject_match_def atomic_def split: prod.splits sum.splits)

lemma reject_match_Inr_cases:
  assumes "get_objects request pk d = Inr ((iid, it), (mid, m))"
    and "reject_match make_oar_id utcnow request pk d g = Some ((Inr resp, d'), g')"
  shows "db_items d' = db_items d \<or>
         db_items d' =
           AList.update iid (it\<lparr>item_status := ERROR_MATCHING,
              item_processing_results := item_processing_results it @ [error_entry utcnow]\<rparr>)
             (db_items d) \<or>
         (\<exists>new_id. db_items d' =
            AList.update iid (it\<lparr>item_facility := Some new_id, item_status := CONFIRMED_MATCH\<rparr>)
              (db_items d))"
    and "item_status it = POTENTIAL_MATCH"
proof -
  from assms(2) have b: "reject_match_body make_oar_id utcnow request pk d g =
      Some ((Inr resp, d'), g')"
    by (simp add: reject_match_Inr)
  show "item_status it = POTENTIAL_MATCH"
    using b assms(1)
    by (simp add: reject_match_body_def split: if_splits)
  then show "db_items d' = db_items d \<or>
         db_items d' =
           AList.update iid (it\<lparr>item_status := ERROR_MATCHING,
              item_processing_results := item_processing_results it @ [error_entry utcnow]\<rparr>)
             (db_items d) \<or>
         (\<exists>new_id. db_items d' =
            AList.update iid (it\<lparr>item_facility := Some new_id, item_status := CONFIRMED_MATCH\<rparr>)
              (db_items d))"
    using b assms(1)
    by (auto simp: reject_match_body_def Let_def
          split: if_splits option.splits sum.splits prod.splits)
qed

lemma reject_match_error_branch:
  assumes "pk_unique d"
    and "get_objects request pk d = Inr ((iid, it), (mid, m))"
    and "item_status it = POTENTIAL_MATCH"
    and "match_status m = PENDING"
    and "pending_matches d iid = [(mid, m)]"
    and "item_geocoded_point it = None \<or> item_status it = GEOCODED_NO_RESULTS"
  shows "\<exists>resp.
           reject_match make_oar_id utcnow request pk d g =
             Some ((Inr resp,
               d\<lparr>db_matches := AList.update mid (m\<lparr>match_status := REJECTED\<rparr>) (db_matches d),
                  db_items := AList.update iid
                    (it\<lparr>item_status := ERROR_MATCHING,
                        item_processing_results :=
                          item_processing_results it @ [error_entry utcnow]\<rparr>) (db_items d)\<rparr>), g)"
proof -
  have rem: "filter (\<lambda>(k, x). match_facility_list_item x = iid \<and> match_status x = PENDING)
           (AList.update mid (m\<lparr>match_status := REJECTED\<rparr>) (db_matches d)) = []"
    using assms(5) by (simp add: reject_match_remaining [OF assms(1)])
  show ?thesis
    using assms(2-4,6) rem
    by (simp add: reject_match_def reject_match_body_def atomic_def Let_def)
qed


lemma reject_match_creation_branch:
  assumes "pk_unique d"
    and "get_objects request pk d = Inr ((iid, it), (mid, m))"
    and "item_status it = POTENTIAL_MATCH"
    and "match_status m = PENDING"
    and "pending_matches d iid = [(mid, m)]"
    and "item_geocoded_point it = Some location"
    and "\<forall>(k, f) \<in> set (db_facilities d). facility_created_from f \<noteq> iid"
    and "finds_free make_oar_id (item_country_code it) (db_facilities d) n g"
  shows "\<exists>resp g' new_id.
           reject_match make_oar_id utcnow request pk d g =
             Some ((Inr resp,
               d\<lparr>db_facilities := db_facilities d @
                    [(new_id, \<lparr>facility_name = item_name it, facility_address = item_address it,
                       facility_country_code = item_country_code it,
                       facility_location = location, facility_created_from = iid\<rparr>)],
                  db_matches :=
                    AList.update mid (m\<lparr>match_status := REJECTED\<rparr>) (db_matches d) @
                    [(next_pk (db_matches d),
                      \<lparr>match_facility_list_item = iid, match_facility = new_id,
                       match_results =
                         [(''match_type'', JString ''all_potential_matches_rejected'')],
                       match_confidence = 1, match_status = CONFIRMED\<rparr>)],
                  db_items := AList.update iid
                    (it\<lparr>item_facility := Some new_id, item_status := CONFIRMED_MATCH\<rparr>)
                    (db_items d)\<rparr>), g') \<and>
           resp_item resp =
             (iid, it\<lparr>item_facility := Some new_id, item_status := CONFIRMED_MATCH\<rparr>) \<and>
           map_of (db_facilities d) new_id = None"
proof -
  let ?f = "\<lparr>facility_name = item_name it, facility_address = item_address it,
             facility_country_code = item_country_code it,
             facility_location = location, facility_created_from = iid\<rparr>"
  have mm: "map_of (db_matches d) mid = Some m"
    using assms(1,2) by (simp add: get_objects_Inr)
  have rem: "filter (\<lambda>(k, x). match_facility_list_item x = iid \<and> match_status x = PENDING)
           (AList.update mid (m\<lparr>match_status := REJECTED\<rparr>) (db_matches d)) = []"
    using assms(5) by (simp add: reject_match_remaining [OF assms(1)])
  have "\<exists>new_id g'. Facility_save make_oar_id True ('''', ?f) (db_facilities d) g =
           Some (Inr ((new_id, ?f), db_facilities d @ [(new_id, ?f)]), g') \<and>
           map_of (db_facilities d) new_id = None"
    using assms(7,8) by (intro Facility_save_new [where n = n]) auto
  then obtain new_id g' where
    s: "Facility_save make_oar_id True ('''', ?f) (db_facilities d) g =
           Some (Inr ((new_id, ?f), db_facilities d @ [(new_id, ?f)]), g')"
    and u: "map_of (db_facilities d) new_id = None"
    by blast
  let ?it1 = "it\<lparr>item_facility := Some new_id, item_status := CONFIRMED_MATCH\<rparr>"
  let ?d' = "d\<lparr>db_facilities := db_facilities d @ [(new_id, ?f)],
                 db_matches :=
                   AList.update mid (m\<lparr>match_status := REJECTED\<rparr>) (db_matches d) @
                   [(next_pk (db_matches d),
                     \<lparr>match_facility_list_item = iid, match_facility = new_id,
                      match_results =
                        [(''match_type'', JString ''all_potential_matches_rejected'')],
                      match_confidence = 1, match_status = CONFIRMED\<rparr>)],
                 db_items := AList.update iid ?it1 (db_items d)\<rparr>"
  have "reject_match make_oar_id utcnow request pk d g =
          Some ((Inr \<lparr>resp_item = (iid, ?it1), resp_list_statuses = list_statuses pk ?d'\<rparr>,
                 ?d'), g')"
    using assms(2-4,6) rem s
    by (simp add: reject_match_def reject_match_body_def atomic_def Let_def
          next_pk_update [OF mm])
  with u show ?thesis
    by (intro exI [where x = new_id] exI [where x = g']
          exI [where x = "\<lparr>resp_item = (iid, ?it1),
                           resp_list_statuses = list_statuses pk ?d'\<rparr>"]) simp
qed

section \<open>Saving facilities\<close>

lemma Facility_save_loop_free:
  "map_of facilities (fst (make_oar_id g country_code)) = None \<Longrightarrow>
     Facility_save_loop make_oar_id country_code facilities g = Some (make_oar_id g country_code)"
  by (subst Facility_save_loop.simps) (auto split: prod.splits)

lemma Facility_save_loop_taken:
  "map_of facilities (fst (make_oar_id g country_code)) \<noteq> None \<Longrightarrow>
     Facility_save_loop make_oar_id country_code facilities g =
       Facility_save_loop make_oar_id country_code facilities (snd (make_oar_id g country_code))"
  by (subst Facility_save_loop.simps) (auto split: prod.splits)

lemma Facility_save_empty_id:
  assumes "Facility_save make_oar_id force_insert ('''', f) facilities g =
             Some (Inr (self, facilities'), g')"
  shows "map_of facilities (fst self) = None \<and> snd self = f \<and>
         facilities' = facilities @ [(fst self, f)]"
proof -
  from assms obtain new_id where
    l: "Facility_save_loop make_oar_id (facility_country_code f) facilities g = Some (new_id, g')"
    and m: "Model_save_Facility force_insert (new_id, f) facilities = Inr facilities'"
    and s: "self = (new_id, f)"
    by (auto simp: Facility_save_def map_sum_def split: option.splits sum.splits)
  have u: "map_of facilities new_id = None"
    by (rule Facility_save_loop_unused [OF l])
  from m u have "facilities' = facilities @ [(new_id, f)]"
    by (auto simp: Model_save_Facility_def update_append split: if_splits)
  with u s show ?thesis by simp
qed

lemma Facility_save_all_ids:
  "Facility_save_all make_oar_id force_insert fs facilities g =
     Some (Inr (ids, facilities'), g') \<Longrightarrow>
     length ids = length fs \<and> distinct ids \<and> (\<forall>i \<in> set ids. map_of facilities i = None) \<and>
     facilities' = facilities @ zip ids fs"
proof (induction fs arbitrary: facilities g ids facilities' g')
  case Nil
  then show ?case by simp
next
  case (Cons f fs)
  from Cons.prems obtain self t1 g1 ids1 where
    s: "Facility_save make_oar_id force_insert ('''', f) facilities g =
          Some (Inr (self, t1), g1)"
    and r: "Facility_save_all make_oar_id force_insert fs t1 g1 =
          Some (Inr (ids1, facilities'), g')"
    and i: "ids = fst self # ids1"
    by (auto split: option.splits sum.splits prod.splits)
  from Facility_save_empty_id [OF s]
  have u: "map_of facilities (fst self) = None" and t: "t1 = facilities @ [(fst self, f)]"
    by simp_all
  from Cons.IH [OF r]
  have ih: "length ids1 = length fs" "distinct ids1" "\<forall>i \<in> set ids1. map_of t1 i = None"
    "facilities' = t1 @ zip ids1 fs"
    by simp_all
  have "fst self \<notin> set ids1"
  proof
    assume "fst self \<in> set ids1"
    with ih(3) have "map_of t1 (fst self) = None" by blast
    with t show False by (simp add: map_of_eq_None_iff)
  qed
  moreover have "\<forall>i \<in> set ids1. map_of facilities i = None"
    using ih(3) t by (auto simp: map_of_eq_None_iff)
  ultimately show ?case
    using i ih u t by simp
qed

text \<open>
  What a save with an empty identifier can return: the identifier drawn is unused, and
  the insertion is refused only when the seed item seeds a stored facility already.
\<close>

lemma Facility_save_empty_id_result:
  assumes "Facility_save make_oar_id force_insert ('''', f) facilities g = Some (r, g')"
  shows "\<exists>new_id. map_of facilities new_id = None \<and>
           (if \<exists>(k, x) \<in> set facilities. facility_created_from x = facility_created_from f
            then r = Inl IntegrityError
            else r = Inr ((new_id, f), facilities @ [(new_id, f)]))"
proof -
  from assms obtain new_id where
    l: "Facility_save_loop make_oar_id (facility_country_code f) facilities g = Some (new_id, g')"
    and r: "r = map_sum id (Pair (new_id, f))
                  (Model_save_Facility force_insert (new_id, f) facilities)"
    by (auto simp: Facility_save_def split: option.splits)
  have u: "map_of facilities new_id = None"
    by (rule Facility_save_loop_unused [OF l])
  then have k: "\<And>k x. (k, x) \<in> set facilities \<Longrightarrow> k \<noteq> new_id"
    by (force simp: map_of_eq_None_iff)
  have "(\<exists>(k, x) \<in> set facilities.
            k \<noteq> new_id \<and> facility_created_from x = facility_created_from f) =
        (\<exists>(k, x) \<in> set facilities. facility_created_from x = facility_created_from f)"
    using k by auto
  with r u show ?thesis
    by (auto simp: Model_save_Facility_def update_append)
qed


section \<open>The matches that stand for an item\<close>












section \<open>The list to replace\<close>






section \<open>The derived views\<close>

lemma those_map_Some:
  "(\<forall>x \<in> set xs. f x \<noteq> None) \<Longrightarrow> those (map f xs) = Some (map (the \<circ> f) xs)"
  by (induction xs) auto

lemma facility_list_item_matches_Some:
  assumes "fk_valid d"
  shows "\<exists>its. facility_list_item_matches d fid = Some its \<and>
           set its = {it. \<exists>(k, m) \<in> set (db_matches d).
                        match_facility m = fid \<and>
                        (match_status m = AUTOMATIC \<or> match_status m = CONFIRMED) \<and>
                        map_of (db_items d) (match_facility_list_item m) = Some it}"
proof -
  let ?ms = "filter (\<lambda>(k, m). match_facility m = fid \<and> match_status m \<in> set [AUTOMATIC, CONFIRMED])
               (db_matches d)"
  let ?f = "\<lambda>(k, m). map_of (db_items d) (match_facility_list_item m)"
  have ok: "\<forall>x \<in> set ?ms. ?f x \<noteq> None"
    using assms by (auto simp: fk_valid_def)
  then have "facility_list_item_matches d fid = Some (map (the \<circ> ?f) ?ms)"
    by (simp add: facility_list_item_matches_def those_map_Some)
  moreover have "set (map (the \<circ> ?f) ?ms) =
      {it. \<exists>(k, m) \<in> set (db_matches d).
             match_facility m = fid \<and>
             (match_status m = AUTOMATIC \<or> match_status m = CONFIRMED) \<and>
             map_of (db_items d) (match_facility_list_item m) = Some it}"
    using ok by (force simp: image_iff)
  ultimately show ?thesis by blast
qed

lemma fk_valid_item_list:
  assumes "fk_valid d" and "map_of (db_items d) i = Some it"
  shows "\<exists>fl. map_of (db_lists d) (item_facility_list it) = Some fl"
  using assms map_of_SomeD [OF assms(2)] by (fastforce simp: fk_valid_def)

lemma fk_valid_list_contributor:
  assumes "fk_valid d" and "map_of (db_lists d) l = Some fl" and "list_contributor fl = Some cid"
  shows "\<exists>c. map_of (db_contributors d) cid = Some c"
  using assms map_of_SomeD [OF assms(2)] by (fastforce simp: fk_valid_def)

lemma other_values_Some:
  assumes "\<forall>it \<in> set its. \<exists>fl. map_of (db_lists d) (item_facility_list it) = Some fl"
  shows "other_values d field self_value its =
           Some {field it | it fl. it \<in> set its \<and> field it \<noteq> '''' \<and> field it \<noteq> self_value \<and>
                   map_of (db_lists d) (item_facility_list it) = Some fl \<and>
                   list_is_active fl \<and> list_is_public fl}"
  using assms
proof (induction its)
  case Nil
  then show ?case by simp
next
  case (Cons a its)
  from Cons.prems obtain fl where fl: "map_of (db_lists d) (item_facility_list a) = Some fl"
    by auto
  from Cons have ih: "other_values d field self_value its =
           Some {field it | it fl. it \<in> set its \<and> field it \<noteq> '''' \<and> field it \<noteq> self_value \<and>
                   map_of (db_lists d) (item_facility_list it) = Some fl \<and>
                   list_is_active fl \<and> list_is_public fl}"
    by simp
  show ?case
    unfolding other_values.simps ih using fl
    by (auto simp: length_0_conv)
qed

lemma other_values_spec:
  assumes "fk_valid d"
  shows "(case facility_list_item_matches d fid of
            None \<Rightarrow> None
          | Some ms \<Rightarrow> other_values d field self_value ms) =
         Some (spec_other_values d field fid self_value)"
proof -
  from facility_list_item_matches_Some [OF assms, of fid] obtain its where
    m: "facility_list_item_matches d fid = Some its"
    and s: "set its = {it. \<exists>(k, m) \<in> set (db_matches d).
                        match_facility m = fid \<and>
                        (match_status m = AUTOMATIC \<or> match_status m = CONFIRMED) \<and>
                        map_of (db_items d) (match_facility_list_item m) = Some it}"
    by blast
  have "\<forall>it \<in> set its. \<exists>fl. map_of (db_lists d) (item_facility_list it) = Some fl"
    using s fk_valid_item_list [OF assms] by auto
  from other_values_Some [OF this]
  have "other_values d field self_value its =
           Some {field it | it fl. it \<in> set its \<and> field it \<noteq> '''' \<and> field it \<noteq> self_value \<and>
                   map_of (db_lists d) (item_facility_list it) = Some fl \<and>
                   list_is_active fl \<and> list_is_public fl}" .
  moreover have "{field it | it fl. it \<in> set its \<and> field it \<noteq> '''' \<and> field it \<noteq> self_value \<and>
                   map_of (db_lists d) (item_facility_list it) = Some fl \<and>
                   list_is_active fl \<and> list_is_public fl} =
                 spec_other_values d field fid self_value"
    unfolding s spec_other_values_def spec_qualifying_def by blast
  ultimately show ?thesis
    using m by simp
qed

lemma set_update_subset: "set (AList.update k v al) \<subseteq> insert (k, v) (set al)"
  by (induction al) auto

lemma keys_update: "fst ` set (AList.update k v al) = insert k (fst ` set al)"
  by (induction al) auto

lemma item_entries_Cons:
  "item_entries d (it # its) = item_entries d [it] \<union> item_entries d its"
  by (auto simp: item_entries_def)

lemma contributors_dict_props:
  assumes "\<forall>it \<in> set its. \<exists>fl. map_of (db_lists d) (item_facility_list it) = Some fl \<and>
             (\<forall>cid. list_contributor fl = Some cid \<longrightarrow>
                (\<exists>c. map_of (db_contributors d) cid = Some c))"
    and "distinct (map fst acc)"
  shows "\<exists>view. contributors_dict d its acc = Some view \<and> distinct (map fst view) \<and>
           set view \<subseteq> set acc \<union> item_entries d its \<and>
           fst ` set view = fst ` set acc \<union> fst ` item_entries d its"
  using assms
proof (induction its arbitrary: acc)
  case Nil
  then show ?case by (simp add: item_entries_def)
next
  case (Cons a its)
  from Cons.prems(1) obtain fl where
    fl: "map_of (db_lists d) (item_facility_list a) = Some fl"
    and co: "\<And>cid. list_contributor fl = Some cid \<Longrightarrow>
               \<exists>c. map_of (db_contributors d) cid = Some c"
    by auto
  have rest: "\<forall>it \<in> set its. \<exists>fl. map_of (db_lists d) (item_facility_list it) = Some fl \<and>
             (\<forall>cid. list_contributor fl = Some cid \<longrightarrow>
                (\<exists>c. map_of (db_contributors d) cid = Some c))"
    using Cons.prems(1) by simp
  show ?case
  proof (cases "list_is_active fl \<and> list_is_public fl \<and> list_contributor fl \<noteq> None")
    case False
    then have e: "item_entries d [a] = {}"
      using fl by (auto simp: item_entries_def)
    from False fl have step: "contributors_dict d (a # its) acc = contributors_dict d its acc"
      by (auto split: option.splits)
    have "item_entries d (a # its) = item_entries d its"
      by (subst item_entries_Cons) (simp add: e)
    with Cons.IH [OF rest Cons.prems(2)] show ?thesis
      unfolding step by simp
  next
    case True
    then obtain cid where cid: "list_contributor fl = Some cid" by auto
    from co [OF this] obtain c where c: "map_of (db_contributors d) cid = Some c" by blast
    let ?e = "(contributor_label c fl, contributor_admin c)"
    let ?acc = "AList.update (fst ?e) (snd ?e) acc"
    have e: "item_entries d [a] = {?e}"
      using fl cid c True by (auto simp: item_entries_def)
    have step: "contributors_dict d (a # its) acc = contributors_dict d its ?acc"
      using fl cid c True by simp
    have "distinct (map fst ?acc)"
      using Cons.prems(2) by (rule distinct_update)
    from Cons.IH [OF rest this] obtain view where
      v: "contributors_dict d its ?acc = Some view" "distinct (map fst view)"
        "set view \<subseteq> set ?acc \<union> item_entries d its"
        "fst ` set view = fst ` set ?acc \<union> fst ` item_entries d its"
      by blast
    have "set view \<subseteq> set acc \<union> item_entries d (a # its)"
      using v(3) set_update_subset [of "fst ?e" "snd ?e" acc]
      by (subst item_entries_Cons) (auto simp: e)
    moreover have "fst ` set view = fst ` set acc \<union> fst ` item_entries d (a # its)"
      using v(4) by (subst item_entries_Cons) (auto simp: e keys_update)
    ultimately show ?thesis
      unfolding step using v(1,2) by simp
  qed
qed

lemma contributors_spec:
  assumes "fk_valid d"
  shows "\<exists>view. contributors d self = Some view \<and> distinct (map fst view) \<and>
           set view \<subseteq> qualifying_entries d (fst self) \<and>
           fst ` set view = fst ` qualifying_entries d (fst self)"
proof -
  from facility_list_item_matches_Some [OF assms, of "fst self"] obtain its where
    m: "facility_list_item_matches d (fst self) = Some its"
    and s: "set its = {it. \<exists>(k, m) \<in> set (db_matches d).
                        match_facility m = fst self \<and>
                        (match_status m = AUTOMATIC \<or> match_status m = CONFIRMED) \<and>
                        map_of (db_items d) (match_facility_list_item m) = Some it}"
    by blast
  have "\<forall>it \<in> set its. \<exists>fl. map_of (db_lists d) (item_facility_list it) = Some fl \<and>
             (\<forall>cid. list_contributor fl = Some cid \<longrightarrow>
                (\<exists>c. map_of (db_contributors d) cid = Some c))"
  proof
    fix it
    assume "it \<in> set its"
    with s obtain i where "map_of (db_items d) i = Some it"
      by auto
    from fk_valid_item_list [OF assms this] obtain fl where
      fl: "map_of (db_lists d) (item_facility_list it) = Some fl"
      by blast
    with fk_valid_list_contributor [OF assms fl]
    show "\<exists>fl. map_of (db_lists d) (item_facility_list it) = Some fl \<and>
             (\<forall>cid. list_contributor fl = Some cid \<longrightarrow>
                (\<exists>c. map_of (db_contributors d) cid = Some c))"
      by blast
  qed
  from contributors_dict_props [OF this, of "[]"]
  obtain view where v: "contributors_dict d its [] = Some view" "distinct (map fst view)"
    "set view \<subseteq> item_entries d its" "fst ` set view = fst ` item_entries d its"
    by auto
  have "item_entries d its = qualifying_entries d (fst self)"
    unfolding item_entries_def qualifying_entries_def spec_qualifying_def s by blast
  with v m show ?thesis
    by (simp add: contributors_def)
qed









lemma potential_unmatched_pending:
  assumes "\<And>k m it. (k, m) \<in> set (db_matches d) \<Longrightarrow>
             map_of (db_items d) (match_facility_list_item m) = Some it \<Longrightarrow>
             item_status it = POTENTIAL_MATCH \<Longrightarrow> match_status m = PENDING"
    and "pk_unique d"
  shows "potential_unmatched d"
  unfolding potential_unmatched_def
proof (intro ballI, clarify)
  fix k it
  assume i: "(k, it) \<in> set (db_items d)" and s: "item_status it = POTENTIAL_MATCH"
  from assms(2) i have m: "map_of (db_items d) k = Some it"
    by (simp add: pk_unique_def)
  have "\<not> (match_facility_list_item x = k \<and>
             (match_status x = AUTOMATIC \<or> match_status x = CONFIRMED))"
    if "(n, x) \<in> set (db_matches d)" for n x
    using assms(1) [OF that, of it] m s by auto
  then show "positive_matches d k = []"
    by (auto simp: positive_matches_def filter_empty_conv)
qed

section \<open>The example states\<close>


lemma ex_get_objects:
  "get_objects ex_request 1 ex_db = Inr ((1, ex_item), (1, ex_match ''F1'' PENDING))"
  by (simp add: get_objects_def ex_request_def ex_db_def ex_list_def ex_item_def ex_match_def)

lemma ex_pk_unique: "pk_unique ex_db"
  by (simp add: pk_unique_def ex_db_def)

lemma ex_item_status: "item_status ex_item = POTENTIAL_MATCH"
  by (simp add: ex_item_def)

lemma ex_match_status: "match_status (ex_match fid st) = st"
  by (simp add: ex_match_def)

lemmas ex_defs = ex_db_def ex_db_with_def ex_db_no_point_def ex_request_def ex_list_def
  ex_item_def ex_match_def

lemma ex_with_pk_unique: "pk_unique (ex_db_with st)"
  by (simp add: pk_unique_def ex_db_with_def ex_db_def)

lemma ex_no_point_pk_unique: "pk_unique ex_db_no_point"
  by (simp add: pk_unique_def ex_db_no_point_def ex_db_with_def ex_db_def)

lemma ex_with_get_objects:
  "get_objects ex_request 1 (ex_db_with st) = Inr ((1, ex_item), (1, ex_match ''F1'' PENDING))"
  by (simp add: get_objects_def ex_defs)

lemma ex_with_get_objects2:
  "get_objects (ex_request\<lparr>facility_match_id := Some 2\<rparr>) 1 (ex_db_with st) =
     Inr ((1, ex_item), (2, ex_match ''F2'' st))"
  by (simp add: get_objects_def ex_defs)

lemma ex_no_point_get_objects:
  "get_objects ex_request 1 ex_db_no_point =
     Inr ((1, ex_item\<lparr>item_geocoded_point := None, item_geocoded_address := None\<rparr>),
          (1, ex_match ''F1'' PENDING))"
  by (simp add: get_objects_def ex_defs)

lemma ex_pending: "pending_matches ex_db 1 = [(1, ex_match ''F1'' PENDING), (2, ex_match ''F2'' PENDING)]"
  by (simp add: pending_matches_def ex_defs)

lemma ex_with_pending:
  "st \<noteq> PENDING \<Longrightarrow> pending_matches (ex_db_with st) 1 = [(1, ex_match ''F1'' PENDING)]"
  by (simp add: pending_matches_def ex_defs)

lemma ex_no_point_pending:
  "pending_matches ex_db_no_point 1 = [(1, ex_match ''F1'' PENDING)]"
  by (simp add: pending_matches_def ex_defs)

lemma ex_finds_free:
  "finds_free ex_make_oar_id ''US'' (db_facilities (ex_db_with st)) 1 0"
  by (simp add: ex_make_oar_id_def ex_defs)

lemma ex_no_point_reject:
  "\<exists>resp d' it'.
     reject_match ex_make_oar_id ''2019-03-01 12:00:00'' ex_request 1 ex_db_no_point (0::nat) =
       Some ((Inr resp, d'), 0) \<and>
     map_of (db_items d') 1 = Some it' \<and> item_status it' = ERROR_MATCHING"
proof -
  let ?it = "ex_item\<lparr>item_geocoded_point := None, item_geocoded_address := None\<rparr>"
  have s: "item_status ?it = POTENTIAL_MATCH"
    by (simp add: ex_item_def)
  have l: "item_geocoded_point ?it = None \<or> item_status ?it = GEOCODED_NO_RESULTS"
    by simp
  from reject_match_error_branch
    [OF ex_no_point_pk_unique ex_no_point_get_objects s ex_match_status ex_no_point_pending l,
      of ex_make_oar_id "''2019-03-01 12:00:00''" 0]
  show ?thesis
    by (auto simp: update_conv')
qed

lemma ex_save_loop:
  "Facility_save_loop ex_make_oar_id ''US'' (db_facilities ex_db) 0 = Some (''US7'', 2)"
  by (simp add: Facility_save_loop_taken Facility_save_loop_free ex_make_oar_id_def ex_db_def)

lemma ex_save_first:
  "Facility_save ex_make_oar_id force_insert ('''', ex_facility 1) (db_facilities ex_db) 0 =
     Some (Inr ((''US7'', ex_facility 1), db_facilities ex_db @ [(''US7'', ex_facility 1)]), 2)"
proof -
  have "Facility_save_loop ex_make_oar_id ''US'' (db_facilities ex_db) 0 = Some (''US7'', 2)"
    by (simp add: Facility_save_loop_taken Facility_save_loop_free ex_make_oar_id_def ex_db_def)
  then show ?thesis
    by (simp add: Facility_save_def Model_save_Facility_def ex_facility_def ex_db_def)
qed

lemma ex_save_second:
  "Facility_save ex_make_oar_id force_insert ('''', ex_facility 4)
     (db_facilities ex_db @ [(''US7'', ex_facility 1)]) 2 =
     Some (Inr ((''US77'', ex_facility 4),
                db_facilities ex_db @ [(''US7'', ex_facility 1), (''US77'', ex_facility 4)]), 3)"
proof -
  have "Facility_save_loop ex_make_oar_id ''US''
          (db_facilities ex_db @ [(''US7'', ex_facility 1)]) 2 = Some (''US77'', 3)"
    by (simp add: Facility_save_loop_free ex_make_oar_id_def ex_db_def eval_nat_numeral)
  then show ?thesis
    by (simp add: Facility_save_def Model_save_Facility_def ex_facility_def ex_db_def)
qed

lemma ex_save_all:
  "Facility_save_all ex_make_oar_id force_insert [ex_facility 1, ex_facility 4]
     (db_facilities ex_db) 0 =
     Some (Inr ([''US7'', ''US77''],
                db_facilities ex_db @ [(''US7'', ex_facility 1), (''US77'', ex_facility 4)]), 3)"
  using ex_save_first [of force_insert] ex_save_second [of force_insert] by simp

lemma ex_save_again:
  "Facility_save ex_make_oar_id False (''F1'', ex_facility 2) (db_facilities ex_db) 0 =
     Some (Inr ((''F1'', ex_facility 2),
                AList.update ''F1'' (ex_facility 2) (db_facilities ex_db)), 0)"
  by (simp add: Facility_save_def Model_save_Facility_def ex_facility_def ex_db_def)


lemma ex_finds_free_facility:
  "finds_free ex_make_oar_id (facility_country_code (ex_facility 1)) (db_facilities ex_db) 1 0"
  by (simp add: ex_make_oar_id_def ex_facility_def ex_db_def)





lemma ex_registry_items:
  "facility_list_item_matches ex_registry ''F1'' =
     Some [ex_registry_item 11 ''Mill'', ex_registry_item 12 ''Mill Ltd'']"
  by (simp add: facility_list_item_matches_def ex_registry_def ex_match_def)

lemma ex_registry_lists:
  "map_of (db_lists ex_registry) (item_facility_list (ex_registry_item 11 name)) =
     Some (ex_list 7 ''spring'')"
  "map_of (db_lists ex_registry) (item_facility_list (ex_registry_item 12 name)) =
     Some (ex_list 7 ''autumn'')"
  by (simp_all add: ex_registry_def ex_registry_item_def)

lemma ex_registry_contributors:
  "contributors ex_registry (''F1'', ex_facility 21) =
     Some [(''Acme (spring)'', 10), (''Acme (autumn)'', 10)]"
  by (simp add: contributors_def ex_registry_items ex_registry_lists)
     (simp add: ex_registry_def ex_registry_item_def ex_list_def contributor_label_def)

lemma ex_registry_other_names:
  "other_names ex_registry (''F1'', ex_facility 21) = Some {''Mill Ltd''}"
  by (simp add: other_names_def ex_registry_items ex_registry_lists)
     (simp add: ex_registry_item_def ex_list_def ex_facility_def)

lemma ex_registry_other_addresses:
  "other_addresses ex_registry (''F1'', ex_facility 21) = Some {}"
  by (simp add: other_addresses_def ex_registry_items ex_registry_lists)
     (simp add: ex_registry_item_def ex_item_def ex_list_def ex_facility_def)

lemma ex_registry_fk_valid: "fk_valid ex_registry"
  by (simp add: fk_valid_def ex_registry_def ex_registry_item_def ex_list_def ex_match_def)

lemma ex_registry_qualifying:
  "spec_qualifying ex_registry ''F1'' =
     {(ex_registry_item 11 ''Mill'', ex_list 7 ''spring''),
      (ex_registry_item 12 ''Mill Ltd'', ex_list 7 ''autumn'')}"
proof -
  have m: "db_matches ex_registry =
        [(31, (ex_match ''F1'' AUTOMATIC)\<lparr>match_facility_list_item := 21\<rparr>),
         (32, (ex_match ''F1'' CONFIRMED)\<lparr>match_facility_list_item := 22\<rparr>)]"
    by (simp add: ex_registry_def)
  have i: "map_of (db_items ex_registry) 21 = Some (ex_registry_item 11 ''Mill'')"
    "map_of (db_items ex_registry) 22 = Some (ex_registry_item 12 ''Mill Ltd'')"
    by (simp_all add: ex_registry_def)
  have a: "list_is_active (ex_list 7 name) \<and> list_is_public (ex_list 7 name)" for name
    by (simp add: ex_list_def)
  show ?thesis
    unfolding spec_qualifying_def m
    by (auto simp: ex_match_def i ex_registry_lists a)
qed


section \<open>Confirming a match\<close>

text \<open>
  Claim C1. When the item that the request names is in status \<open>POTENTIAL_MATCH\<close> and the
  match that it names, one of that item's, is \<open>PENDING\<close>, \<open>confirm_match\<close> succeeds, and
  in the resulting state the named match is \<open>CONFIRMED\<close>, every other match of the same
  item is \<open>REJECTED\<close>, and the item is in status \<open>CONFIRMED_MATCH\<close> with its facility
  link set to the facility of the confirmed match.
\<close>

theorem confirm_match_effect:
  assumes "get_objects request pk d = Inr ((iid, it), (mid, m))"
    and "item_status it = POTENTIAL_MATCH"
    and "match_status m = PENDING"
  shows "\<exists>resp d'. confirm_match request pk d = (Inr resp, d') \<and>
           map_of (db_matches d') mid = Some (m\<lparr>match_status := CONFIRMED\<rparr>) \<and>
           (\<forall>k x. k \<noteq> mid \<and> map_of (db_matches d) k = Some x \<and> match_facility_list_item x = iid
                  \<longrightarrow> map_of (db_matches d') k = Some (x\<lparr>match_status := REJECTED\<rparr>)) \<and>
           map_of (db_items d') iid =
             Some (it\<lparr>item_status := CONFIRMED_MATCH, item_facility := Some (match_facility m)\<rparr>)"
  using assms
  by (simp add: confirm_match_def atomic_def confirm_match_body_def Let_def
        map_of_update_others update_conv')

text \<open>
  The scenario of the spec: item 1 has the matches 1 and 2, both \<open>PENDING\<close>; confirming
  match 1 leaves match 1 \<open>CONFIRMED\<close>, match 2 \<open>REJECTED\<close> and the item linked to \<open>F1\<close>.
\<close>

theorem confirm_match_effect_witness:
  "get_objects ex_request 1 ex_db = Inr ((1, ex_item), (1, ex_match ''F1'' PENDING)) \<and>
   item_status ex_item = POTENTIAL_MATCH \<and> match_status (ex_match ''F1'' PENDING) = PENDING \<and>
   (\<exists>resp d'. confirm_match ex_request 1 ex_db = (Inr resp, d') \<and>
      map_of (db_matches d') 1 = Some (ex_match ''F1'' CONFIRMED) \<and>
      map_of (db_matches d') 2 = Some (ex_match ''F2'' REJECTED) \<and>
      map_of (db_items d') 1 =
        Some (ex_item\<lparr>item_status := CONFIRMED_MATCH, item_facility := Some ''F1''\<rparr>))"
proof -
  have m2: "map_of (db_matches ex_db) 2 = Some (ex_match ''F2'' PENDING)"
    by (simp add: ex_db_def)
  have i2: "match_facility_list_item (ex_match ''F2'' PENDING) = 1"
    by (simp add: ex_match_def)
  from confirm_match_effect [OF ex_get_objects ex_item_status ex_match_status]
  obtain resp d' where r: "confirm_match ex_request 1 ex_db = (Inr resp, d')"
    "map_of (db_matches d') 1 = Some ((ex_match ''F1'' PENDING)\<lparr>match_status := CONFIRMED\<rparr>)"
    "\<forall>k x. k \<noteq> 1 \<and> map_of (db_matches ex_db) k = Some x \<and> match_facility_list_item x = 1
       \<longrightarrow> map_of (db_matches d') k = Some (x\<lparr>match_status := REJECTED\<rparr>)"
    "map_of (db_items d') 1 =
       Some (ex_item\<lparr>item_status := CONFIRMED_MATCH,
                     item_facility := Some (match_facility (ex_match ''F1'' PENDING))\<rparr>)"
    by blast
  from r(3) m2 i2
  have "map_of (db_matches d') 2 = Some ((ex_match ''F2'' PENDING)\<lparr>match_status := REJECTED\<rparr>)"
    by simp
  with r(1,2,4) ex_get_objects ex_item_status show ?thesis
    by (auto simp: ex_match_def)
qed

section \<open>Rejected preconditions\<close>

text \<open>
  Claim C2. When the item that the request names is not in status \<open>POTENTIAL_MATCH\<close>, or
  the match that it names is not \<open>PENDING\<close>, both \<open>confirm_match\<close> and \<open>reject_match\<close>
  return a validation error and the database is the one they were called on. This holds
  of the bodies of the views as well, before the transaction is rolled back: no row is
  written before the error is raised.
\<close>

theorem adjudication_precondition:
  assumes "get_objects request pk d = Inr ((iid, it), (mid, m))"
    and "item_status it \<noteq> POTENTIAL_MATCH \<or> match_status m \<noteq> PENDING"
  shows "(\<exists>msg. confirm_match_body request pk d = (Inl (ValidationError msg), d)) \<and>
         (\<exists>msg. confirm_match request pk d = (Inl (ValidationError msg), d)) \<and>
         (\<exists>msg. reject_match_body make_oar_id utcnow request pk d g =
                   Some ((Inl (ValidationError msg), d), g)) \<and>
         (\<exists>msg. reject_match make_oar_id utcnow request pk d g =
                   Some ((Inl (ValidationError msg), d), g))"
  using assms
  by (auto simp: confirm_match_def confirm_match_body_def reject_match_def
        reject_match_body_def atomic_def)

text \<open>Match 2 of the example has been rejected already; adjudicating it again fails.\<close>

theorem adjudication_precondition_witness:
  "get_objects (ex_request\<lparr>facility_match_id := Some 2\<rparr>) 1 (ex_db_with REJECTED) =
     Inr ((1, ex_item), (2, ex_match ''F2'' REJECTED)) \<and>
   match_status (ex_match ''F2'' REJECTED) \<noteq> PENDING \<and>
   (\<exists>msg. confirm_match (ex_request\<lparr>facility_match_id := Some 2\<rparr>) 1 (ex_db_with REJECTED) =
            (Inl (ValidationError msg), ex_db_with REJECTED)) \<and>
   (\<exists>msg. reject_match ex_make_oar_id ''2019-03-01 12:00:00''
            (ex_request\<lparr>facility_match_id := Some 2\<rparr>) 1 (ex_db_with REJECTED) (0::nat) =
            Some ((Inl (ValidationError msg), ex_db_with REJECTED), 0))"
proof -
  have h: "item_status ex_item \<noteq> POTENTIAL_MATCH \<or>
           match_status (ex_match ''F2'' REJECTED) \<noteq> PENDING"
    by (simp add: ex_match_def)
  from adjudication_precondition
    [OF ex_with_get_objects2 h, of ex_make_oar_id "''2019-03-01 12:00:00''" 0]
  show ?thesis
    using ex_with_get_objects2 [of REJECTED] by (simp add: ex_match_def)
qed

section \<open>Rejecting one of several candidates\<close>

text \<open>
  Claim C3. When the item is in status \<open>POTENTIAL_MATCH\<close> and has at least two \<open>PENDING\<close>
  matches, rejecting one of them changes the status of that match to \<open>REJECTED\<close> and
  nothing else: the resulting database is the given one with that one row rewritten.
  The item's row is the same (status \<open>POTENTIAL_MATCH\<close>, facility link and processing
  results as before), the facility table is the same, no match is added and every
  other match is as before.
\<close>

theorem reject_match_others_pending:
  assumes "pk_unique d"
    and "get_objects request pk d = Inr ((iid, it), (mid, m))"
    and "item_status it = POTENTIAL_MATCH"
    and "match_status m = PENDING"
    and "2 \<le> length (pending_matches d iid)"
  shows "\<exists>resp d'.
           reject_match make_oar_id utcnow request pk d g = Some ((Inr resp, d'), g) \<and>
           d' = d\<lparr>db_matches :=
                    AList.update mid (m\<lparr>match_status := REJECTED\<rparr>) (db_matches d)\<rparr> \<and>
           resp_item resp = (iid, it) \<and>
           map_of (db_items d') iid = Some it \<and>
           db_items d' = db_items d \<and>
           db_facilities d' = db_facilities d \<and>
           map fst (db_matches d') = map fst (db_matches d) \<and>
           map_of (db_matches d') mid = Some (m\<lparr>match_status := REJECTED\<rparr>) \<and>
           (\<forall>k. k \<noteq> mid \<longrightarrow> map_of (db_matches d') k = map_of (db_matches d) k)"
proof -
  have dist: "distinct (map fst (db_matches d))"
    using assms(1) by (simp add: pk_unique_def)
  have mm: "map_of (db_matches d) mid = Some m" and mi: "map_of (db_items d) iid = Some it"
    using assms(1,2) by (simp_all add: get_objects_Inr)
  from mm have k: "mid \<in> set (map fst (db_matches d))"
    by (metis map_of_eq_None_iff option.distinct(1) set_map)
  have "length (pending_matches d iid)
          \<le> Suc (length (filter (\<lambda>kv. fst kv \<noteq> mid) (pending_matches d iid)))"
    using length_filter_except_key [OF dist, of _ mid]
    by (simp add: pending_matches_def)
  with assms(5) have "filter (\<lambda>kv. fst kv \<noteq> mid) (pending_matches d iid) \<noteq> []"
    by auto
  with assms(2-4) mi k show ?thesis
    by (simp add: reject_match_def reject_match_body_def atomic_def Let_def
          reject_match_remaining [OF assms(1)] update_keys update_conv')
qed

text \<open>Rejecting match 1 of the example while match 2 is pending.\<close>

theorem reject_match_others_pending_witness:
  "pk_unique ex_db \<and>
   get_objects ex_request 1 ex_db = Inr ((1, ex_item), (1, ex_match ''F1'' PENDING)) \<and>
   item_status ex_item = POTENTIAL_MATCH \<and> match_status (ex_match ''F1'' PENDING) = PENDING \<and>
   2 \<le> length (pending_matches ex_db 1) \<and>
   (\<exists>resp.
      reject_match ex_make_oar_id ''2019-03-01 12:00:00'' ex_request 1 ex_db (0::nat) =
        Some ((Inr resp,
               ex_db\<lparr>db_matches :=
                  AList.update 1 (ex_match ''F1'' REJECTED) (db_matches ex_db)\<rparr>), 0) \<and>
      resp_item resp = (1, ex_item))"
proof -
  have h: "2 \<le> length (pending_matches ex_db 1)"
    using ex_pending by simp
  from reject_match_others_pending
    [OF ex_pk_unique ex_get_objects ex_item_status ex_match_status h,
      of ex_make_oar_id "''2019-03-01 12:00:00''" 0]
  show ?thesis
    using ex_pk_unique ex_get_objects ex_item_status h by (auto simp: ex_match_def)
qed

section \<open>Rejecting the last candidate of a geocoded item\<close>

text \<open>
  Claim C4. The item is in status \<open>POTENTIAL_MATCH\<close> (so not \<open>GEOCODED_NO_RESULTS\<close>), the
  match named is its only \<open>PENDING\<close> match, and it has a geocoded point. Then
  \<open>reject_match\<close> succeeds and the resulting database differs from the given one in
  this: one facility is appended, under an identifier that no facility had, with the
  name, address, country code and point of the item and the item as its seed; the named
  match is \<open>REJECTED\<close> and one match is appended, under a key that no match had, between
  the item and the new facility, with status \<open>CONFIRMED\<close>, confidence 1 and the results
  \<open>{"match_type": "all_potential_matches_rejected"}\<close>; the item is linked to the new
  facility and in status \<open>CONFIRMED_MATCH\<close>.

  Two assumptions describe the surroundings of the call rather than the item: no
  stored facility has the item as its seed already (the one-to-one field would refuse
  the insertion), and the source of candidates reaches an unused identifier within
  some number of draws (the loop of \<open>Facility.save\<close> would not end otherwise).
\<close>

theorem reject_match_creates_facility:
  assumes "pk_unique d"
    and "get_objects request pk d = Inr ((iid, it), (mid, m))"
    and "item_status it = POTENTIAL_MATCH"
    and "match_status m = PENDING"
    and "pending_matches d iid = [(mid, m)]"
    and "item_geocoded_point it = Some location"
    and "\<forall>(k, f) \<in> set (db_facilities d). facility_created_from f \<noteq> iid"
    and "finds_free make_oar_id (item_country_code it) (db_facilities d) n g"
  shows "\<exists>resp d' g' new_id.
           reject_match make_oar_id utcnow request pk d g = Some ((Inr resp, d'), g') \<and>
           map_of (db_facilities d) new_id = None \<and>
           db_facilities d' = db_facilities d @
             [(new_id, \<lparr>facility_name = item_name it, facility_address = item_address it,
                        facility_country_code = item_country_code it,
                        facility_location = location, facility_created_from = iid\<rparr>)] \<and>
           next_pk (db_matches d) \<notin> fst ` set (db_matches d) \<and>
           db_matches d' =
             AList.update mid (m\<lparr>match_status := REJECTED\<rparr>) (db_matches d) @
             [(next_pk (db_matches d),
               \<lparr>match_facility_list_item = iid, match_facility = new_id,
                match_results = [(''match_type'', JString ''all_potential_matches_rejected'')],
                match_confidence = 1, match_status = CONFIRMED\<rparr>)] \<and>
           db_items d' =
             AList.update iid (it\<lparr>item_facility := Some new_id, item_status := CONFIRMED_MATCH\<rparr>)
               (db_items d) \<and>
           map_of (db_items d') iid =
             Some (it\<lparr>item_facility := Some new_id, item_status := CONFIRMED_MATCH\<rparr>) \<and>
           resp_item resp =
             (iid, it\<lparr>item_facility := Some new_id, item_status := CONFIRMED_MATCH\<rparr>) \<and>
           db_lists d' = db_lists d \<and> db_contributors d' = db_contributors d"
proof -
  from reject_match_creation_branch [OF assms, of utcnow]
  obtain resp g' new_id where
    r: "reject_match make_oar_id utcnow request pk d g =
          Some ((Inr resp,
            d\<lparr>db_facilities := db_facilities d @
                 [(new_id, \<lparr>facility_name = item_name it, facility_address = item_address it,
                    facility_country_code = item_country_code it,
                    facility_location = location, facility_created_from = iid\<rparr>)],
               db_matches :=
                 AList.update mid (m\<lparr>match_status := REJECTED\<rparr>) (db_matches d) @
                 [(next_pk (db_matches d),
                   \<lparr>match_facility_list_item = iid, match_facility = new_id,
                    match_results =
                      [(''match_type'', JString ''all_potential_matches_rejected'')],
                    match_confidence = 1, match_status = CONFIRMED\<rparr>)],
               db_items := AList.update iid
                 (it\<lparr>item_facility := Some new_id, item_status := CONFIRMED_MATCH\<rparr>)
                 (db_items d)\<rparr>), g')"
    and i: "resp_item resp =
              (iid, it\<lparr>item_facility := Some new_id, item_status := CONFIRMED_MATCH\<rparr>)"
    and u: "map_of (db_facilities d) new_id = None"
    by blast
  from r i u next_pk_fresh [of "db_matches d"] show ?thesis
    by (simp add: update_conv')
qed

text \<open>
  The scenario of the spec: match 2 of the example is rejected already, the item is
  geocoded, and match 1 is rejected. The first candidate drawn is taken, the second is
  not.
\<close>

theorem reject_match_creates_facility_witness:
  "pk_unique (ex_db_with REJECTED) \<and>
   get_objects ex_request 1 (ex_db_with REJECTED) =
     Inr ((1, ex_item), (1, ex_match ''F1'' PENDING)) \<and>
   item_status ex_item = POTENTIAL_MATCH \<and> match_status (ex_match ''F1'' PENDING) = PENDING \<and>
   pending_matches (ex_db_with REJECTED) 1 = [(1, ex_match ''F1'' PENDING)] \<and>
   item_geocoded_point ex_item = Some (1, 2) \<and>
   map (\<lambda>(k, f). facility_created_from f) (db_facilities (ex_db_with REJECTED)) = [2, 3] \<and>
   finds_free ex_make_oar_id (item_country_code ex_item) (db_facilities (ex_db_with REJECTED)) 1 0 \<and>
   (\<exists>resp d' g' new_id.
      reject_match ex_make_oar_id ''2019-03-01 12:00:00'' ex_request 1 (ex_db_with REJECTED) 0 =
        Some ((Inr resp, d'), g') \<and>
      map_of (db_facilities (ex_db_with REJECTED)) new_id = None \<and>
      db_facilities d' = db_facilities (ex_db_with REJECTED) @
        [(new_id, \<lparr>facility_name = ''Mill'', facility_address = ''1 Road'',
                   facility_country_code = ''US'', facility_location = (1, 2),
                   facility_created_from = 1\<rparr>)] \<and>
      db_matches d' =
        AList.update 1 (ex_match ''F1'' REJECTED) (db_matches (ex_db_with REJECTED)) @
        [(5, \<lparr>match_facility_list_item = 1, match_facility = new_id,
              match_results = [(''match_type'', JString ''all_potential_matches_rejected'')],
              match_confidence = 1, match_status = CONFIRMED\<rparr>)] \<and>
      db_items d' =
        AList.update 1 (ex_item\<lparr>item_facility := Some new_id, item_status := CONFIRMED_MATCH\<rparr>)
          (db_items (ex_db_with REJECTED)))"
proof -
  have p: "pending_matches (ex_db_with REJECTED) 1 = [(1, ex_match ''F1'' PENDING)]"
    using ex_with_pending [of REJECTED] by simp
  have l: "item_geocoded_point ex_item = Some (1, 2)"
    by (simp add: ex_item_def)
  have c: "\<forall>(k, f) \<in> set (db_facilities (ex_db_with REJECTED)). facility_created_from f \<noteq> 1"
    by (simp add: ex_defs)
  have f: "finds_free ex_make_oar_id (item_country_code ex_item)
             (db_facilities (ex_db_with REJECTED)) 1 0"
    using ex_finds_free [of REJECTED] by (simp add: ex_item_def)
  have n: "next_pk (db_matches (ex_db_with REJECTED)) = 5"
    by (simp add: next_pk_def ex_defs)
  from reject_match_creates_facility
    [OF ex_with_pk_unique ex_with_get_objects ex_item_status ex_match_status p l c f,
      of "''2019-03-01 12:00:00''"]
  obtain resp d' g' new_id where
    "reject_match ex_make_oar_id ''2019-03-01 12:00:00'' ex_request 1 (ex_db_with REJECTED) 0 =
        Some ((Inr resp, d'), g')"
    "map_of (db_facilities (ex_db_with REJECTED)) new_id = None"
    "db_facilities d' = db_facilities (ex_db_with REJECTED) @
        [(new_id, \<lparr>facility_name = item_name ex_item, facility_address = item_address ex_item,
                   facility_country_code = item_country_code ex_item, facility_location = (1, 2),
                   facility_created_from = 1\<rparr>)]"
    "db_matches d' =
        AList.update 1 ((ex_match ''F1'' PENDING)\<lparr>match_status := REJECTED\<rparr>)
          (db_matches (ex_db_with REJECTED)) @
        [(next_pk (db_matches (ex_db_with REJECTED)),
          \<lparr>match_facility_list_item = 1, match_facility = new_id,
              match_results = [(''match_type'', JString ''all_potential_matches_rejected'')],
              match_confidence = 1, match_status = CONFIRMED\<rparr>)]"
    "db_items d' =
        AList.update 1 (ex_item\<lparr>item_facility := Some new_id, item_status := CONFIRMED_MATCH\<rparr>)
          (db_items (ex_db_with REJECTED))"
    by blast
  then have "\<exists>resp d' g' new_id.
      reject_match ex_make_oar_id ''2019-03-01 12:00:00'' ex_request 1 (ex_db_with REJECTED) 0 =
        Some ((Inr resp, d'), g') \<and>
      map_of (db_facilities (ex_db_with REJECTED)) new_id = None \<and>
      db_facilities d' = db_facilities (ex_db_with REJECTED) @
        [(new_id, \<lparr>facility_name = ''Mill'', facility_address = ''1 Road'',
                   facility_country_code = ''US'', facility_location = (1, 2),
                   facility_created_from = 1\<rparr>)] \<and>
      db_matches d' =
        AList.update 1 (ex_match ''F1'' REJECTED) (db_matches (ex_db_with REJECTED)) @
        [(5, \<lparr>match_facility_list_item = 1, match_facility = new_id,
              match_results = [(''match_type'', JString ''all_potential_matches_rejected'')],
              match_confidence = 1, match_status = CONFIRMED\<rparr>)] \<and>
      db_items d' =
        AList.update 1 (ex_item\<lparr>item_facility := Some new_id, item_status := CONFIRMED_MATCH\<rparr>)
          (db_items (ex_db_with REJECTED))"
    unfolding n by (simp add: ex_item_def ex_match_def)
  moreover have "map (\<lambda>(k, f). facility_created_from f) (db_facilities (ex_db_with REJECTED)) =
      [2, 3]"
    by (simp add: ex_defs)
  ultimately show ?thesis
    using ex_with_pk_unique ex_with_get_objects ex_item_status p l f
    by (simp add: ex_match_def)
qed

section \<open>Rejecting the last candidate of an item without a location\<close>

text \<open>
  Claim C5. The item is in status \<open>POTENTIAL_MATCH\<close>, the match named is its only
  \<open>PENDING\<close> match, and its geocoded point is null or its status is
  \<open>GEOCODED_NO_RESULTS\<close>. Then \<open>reject_match\<close> succeeds; the item is stored in status
  \<open>ERROR_MATCHING\<close> with one entry appended to its processing results, whose \<open>error\<close>
  is true and whose message is the text of the source, which says that no facility can
  be made from an item without a geocoded location; the item's facility link is what
  it was, the facility table is what it was, and the match table has the rows it had,
  the named one \<open>REJECTED\<close>.
\<close>

theorem reject_match_no_location:
  assumes "pk_unique d"
    and "get_objects request pk d = Inr ((iid, it), (mid, m))"
    and "item_status it = POTENTIAL_MATCH"
    and "match_status m = PENDING"
    and "pending_matches d iid = [(mid, m)]"
    and "item_geocoded_point it = None \<or> item_status it = GEOCODED_NO_RESULTS"
  shows "\<exists>resp d' it'.
           reject_match make_oar_id utcnow request pk d g = Some ((Inr resp, d'), g) \<and>
           map_of (db_items d') iid = Some it' \<and>
           it' = it\<lparr>item_status := ERROR_MATCHING,
                    item_processing_results :=
                      item_processing_results it @ [error_entry utcnow]\<rparr> \<and>
           map_of (error_entry utcnow) ''error'' = Some (JBool True) \<and>
           map_of (error_entry utcnow) ''message'' = Some (JString
             ''Unable to create a new facility from an item with no geocoded location'') \<and>
           item_facility it' = item_facility it \<and>
           db_facilities d' = db_facilities d \<and>
           db_matches d' = AList.update mid (m\<lparr>match_status := REJECTED\<rparr>) (db_matches d) \<and>
           map fst (db_matches d') = map fst (db_matches d) \<and>
           db_items d' = AList.update iid it' (db_items d)"
proof -
  have mm: "map_of (db_matches d) mid = Some m"
    using assms(1,2) by (simp add: get_objects_Inr)
  then have "mid \<in> set (map fst (db_matches d))"
    by (metis map_of_eq_None_iff option.distinct(1) set_map)
  then have k: "map fst (AList.update mid (m\<lparr>match_status := REJECTED\<rparr>) (db_matches d)) =
                map fst (db_matches d)"
    by (simp add: update_keys)
  have e: "map_of (error_entry utcnow) ''error'' = Some (JBool True) \<and>
           map_of (error_entry utcnow) ''message'' = Some (JString
             ''Unable to create a new facility from an item with no geocoded location'')"
    by (simp add: error_entry_def)
  from reject_match_error_branch [OF assms, of make_oar_id utcnow g] k e
  show ?thesis
    by (auto simp: update_conv')
qed

text \<open>The example with match 2 rejected and the item not geocoded.\<close>

theorem reject_match_no_location_witness:
  "pk_unique ex_db_no_point \<and>
   get_objects ex_request 1 ex_db_no_point =
     Inr ((1, ex_item\<lparr>item_geocoded_point := None, item_geocoded_address := None\<rparr>),
          (1, ex_match ''F1'' PENDING)) \<and>
   pending_matches ex_db_no_point 1 = [(1, ex_match ''F1'' PENDING)] \<and>
   (\<exists>resp d' it'.
      reject_match ex_make_oar_id ''2019-03-01 12:00:00'' ex_request 1 ex_db_no_point (0::nat) =
        Some ((Inr resp, d'), 0) \<and>
      map_of (db_items d') 1 = Some it' \<and>
      item_status it' = ERROR_MATCHING \<and>
      item_processing_results it' = [error_entry ''2019-03-01 12:00:00''] \<and>
      item_facility it' = None \<and>
      db_facilities d' = db_facilities ex_db_no_point \<and>
      map fst (db_matches d') = [1, 2, 3, 4])"
proof -
  let ?it = "ex_item\<lparr>item_geocoded_point := None, item_geocoded_address := None\<rparr>"
  have s: "item_status ?it = POTENTIAL_MATCH"
    by (simp add: ex_item_def)
  have l: "item_geocoded_point ?it = None \<or> item_status ?it = GEOCODED_NO_RESULTS"
    by simp
  have k: "map fst (db_matches ex_db_no_point) = [1, 2, 3, 4]"
    by (simp add: ex_defs)
  have i: "item_processing_results ?it = [] \<and> item_facility ?it = None"
    by (simp add: ex_item_def)
  from reject_match_no_location
    [OF ex_no_point_pk_unique ex_no_point_get_objects s ex_match_status ex_no_point_pending l,
      of ex_make_oar_id "''2019-03-01 12:00:00''" 0]
  show ?thesis
    using ex_no_point_pk_unique ex_no_point_get_objects ex_no_point_pending k i
    by auto
qed

section \<open>The entry logged by a failed rejection\<close>

text \<open>
  Claim C10. Whenever \<open>reject_match\<close> succeeds and leaves the item in status
  \<open>ERROR_MATCHING\<close>, the processing results of the item are those it had with one entry
  appended; the action of that entry is \<open>ProcessingAction.CONFIRM\<close>, and its
  \<open>started_at\<close> and \<open>finished_at\<close> are the same text, the one timestamp taken when the
  entry is made.
\<close>

theorem reject_match_error_entry:
  assumes "pk_unique d"
    and "get_objects request pk d = Inr ((iid, it), (mid, m))"
    and "reject_match make_oar_id utcnow request pk d g = Some ((Inr resp, d'), g')"
    and "map_of (db_items d') iid = Some it'"
    and "item_status it' = ERROR_MATCHING"
  shows "item_processing_results it' = item_processing_results it @ [error_entry utcnow] \<and>
         map_of (error_entry utcnow) ''action'' = Some (JAction CONFIRM) \<and>
         map_of (error_entry utcnow) ''started_at'' = Some (JString utcnow) \<and>
         map_of (error_entry utcnow) ''finished_at'' = Some (JString utcnow)"
proof -
  have mi: "map_of (db_items d) iid = Some it"
    using assms(1,2) by (simp add: get_objects_Inr)
  have e: "map_of (error_entry utcnow) ''action'' = Some (JAction CONFIRM) \<and>
         map_of (error_entry utcnow) ''started_at'' = Some (JString utcnow) \<and>
         map_of (error_entry utcnow) ''finished_at'' = Some (JString utcnow)"
    by (simp add: error_entry_def)
  from reject_match_Inr_cases [OF assms(2,3)] assms(4,5) mi
  have "item_processing_results it' = item_processing_results it @ [error_entry utcnow]"
    by (auto simp: update_conv')
  with e show ?thesis by simp
qed

theorem reject_match_error_entry_witness:
  "\<exists>resp d' it'.
     pk_unique ex_db_no_point \<and>
     reject_match ex_make_oar_id ''2019-03-01 12:00:00'' ex_request 1 ex_db_no_point (0::nat) =
       Some ((Inr resp, d'), 0) \<and>
     map_of (db_items d') 1 = Some it' \<and> item_status it' = ERROR_MATCHING \<and>
     item_processing_results it' = [error_entry ''2019-03-01 12:00:00''] \<and>
     map_of (error_entry ''2019-03-01 12:00:00'') ''action'' = Some (JAction CONFIRM) \<and>
     map_of (error_entry ''2019-03-01 12:00:00'') ''started_at'' =
       Some (JString ''2019-03-01 12:00:00'') \<and>
     map_of (error_entry ''2019-03-01 12:00:00'') ''finished_at'' =
       Some (JString ''2019-03-01 12:00:00'')"
proof -
  from ex_no_point_reject obtain resp d' it' where
    r: "reject_match ex_make_oar_id ''2019-03-01 12:00:00'' ex_request 1 ex_db_no_point (0::nat) =
       Some ((Inr resp, d'), 0)"
    and i: "map_of (db_items d') 1 = Some it'" and e: "item_status it' = ERROR_MATCHING"
    by blast
  have "item_processing_results
          (ex_item\<lparr>item_geocoded_point := None, item_geocoded_address := None\<rparr>) = []"
    by (simp add: ex_item_def)
  with reject_match_error_entry [OF ex_no_point_pk_unique ex_no_point_get_objects r i e]
    ex_no_point_pk_unique r i e
  show ?thesis by auto
qed

section \<open>Identifiers of facilities\<close>

text \<open>
  Claim C7. The loop of \<open>Facility.save\<close> returns only an identifier that is not the key
  of a stored facility. Hence a facility saved with an empty identifier, with or
  without \<open>force_insert\<close>, is stored under an identifier that no facility had, as a new
  row after the rows that were there, and no stored row is touched; the save is refused
  only when the seed item of the facility seeds a stored facility already, never for
  its identifier. In a run of such insertions, on a table that grows with each, every
  identifier assigned is absent from the table the run started on and differs from every
  identifier assigned earlier in the run. This holds of runs of every length, 10,000
  among them, whatever the country codes and whatever \<open>make_oar_id\<close> draws. Saving a
  facility whose identifier is not empty does not draw a candidate and leaves the
  identifier as it is: the object saved is the object given, stored under its own
  identifier.

  The loop returns as soon as the source of candidates reaches an identifier that is
  not in use.
\<close>

theorem Facility_save_identifier:
  "(Facility_save_loop make_oar_id country_code facilities g = Some (new_id, g1) \<longrightarrow>
      map_of facilities new_id = None) \<and>
   (Facility_save make_oar_id force_insert ('''', f) facilities g = Some (r2, g2) \<longrightarrow>
      (\<exists>new_id. map_of facilities new_id = None \<and>
         (if \<exists>(k, x) \<in> set facilities. facility_created_from x = facility_created_from f
          then r2 = Inl IntegrityError
          else r2 = Inr ((new_id, f), facilities @ [(new_id, f)])))) \<and>
   (Facility_save_all make_oar_id force_insert fs facilities g =
      Some (Inr (ids, facilities'), g') \<longrightarrow>
      length ids = length fs \<and> distinct ids \<and> (\<forall>i \<in> set ids. map_of facilities i = None) \<and>
      facilities' = facilities @ zip ids fs) \<and>
   (fst self \<noteq> '''' \<longrightarrow>
      (\<exists>r. Facility_save make_oar_id force_insert self facilities g = Some (r, g) \<and>
           (\<forall>self' facilities''. r = Inr (self', facilities'') \<longrightarrow>
              self' = self \<and> map_of facilities'' (fst self) = Some (snd self)))) \<and>
   (finds_free make_oar_id (facility_country_code f) facilities n g \<longrightarrow>
      (\<exists>r g'. Facility_save make_oar_id force_insert ('''', f) facilities g = Some (r, g')))"
proof (intro conjI impI)
  assume "Facility_save_loop make_oar_id country_code facilities g = Some (new_id, g1)"
  then show "map_of facilities new_id = None"
    by (rule Facility_save_loop_unused)
next
  assume "Facility_save make_oar_id force_insert ('''', f) facilities g = Some (r2, g2)"
  then show "\<exists>new_id. map_of facilities new_id = None \<and>
         (if \<exists>(k, x) \<in> set facilities. facility_created_from x = facility_created_from f
          then r2 = Inl IntegrityError
          else r2 = Inr ((new_id, f), facilities @ [(new_id, f)]))"
    by (rule Facility_save_empty_id_result)
next
  assume "Facility_save_all make_oar_id force_insert fs facilities g =
      Some (Inr (ids, facilities'), g')"
  from Facility_save_all_ids [OF this]
  show "length ids = length fs" and "distinct ids"
    and "\<forall>i \<in> set ids. map_of facilities i = None"
    and "facilities' = facilities @ zip ids fs"
    by simp_all
next
  assume "fst self \<noteq> ''''"
  then show "\<exists>r. Facility_save make_oar_id force_insert self facilities g = Some (r, g) \<and>
           (\<forall>self' facilities''. r = Inr (self', facilities'') \<longrightarrow>
              self' = self \<and> map_of facilities'' (fst self) = Some (snd self))"
    by (auto simp: Facility_save_def Model_save_Facility_def update_conv' split: if_splits)
next
  assume "finds_free make_oar_id (facility_country_code f) facilities n g"
  from Facility_save_loop_finds [OF this]
  show "\<exists>r g'. Facility_save make_oar_id force_insert ('''', f) facilities g = Some (r, g')"
    by (auto simp: Facility_save_def)
qed

text \<open>
  On the facilities of the example the first candidate drawn, \<open>F1\<close>, is in use: the
  loop discards it and returns the second. A save without \<open>force_insert\<close> therefore
  appends a row and leaves the row of \<open>F1\<close> as it was. Two insertions in a row get
  different identifiers. Then a facility that has an identifier is saved again.
\<close>

theorem Facility_save_identifier_witness:
  "fst (ex_make_oar_id 0 ''US'') = ''F1'' \<and>
   map_of (db_facilities ex_db) ''F1'' \<noteq> None \<and>
   Facility_save_loop ex_make_oar_id ''US'' (db_facilities ex_db) 0 = Some (''US7'', 2) \<and>
   map_of (db_facilities ex_db) ''US7'' = None \<and>
   Facility_save ex_make_oar_id False ('''', ex_facility 1) (db_facilities ex_db) 0 =
     Some (Inr ((''US7'', ex_facility 1), db_facilities ex_db @ [(''US7'', ex_facility 1)]), 2) \<and>
   Facility_save_all ex_make_oar_id False [ex_facility 1, ex_facility 4] (db_facilities ex_db) 0 =
     Some (Inr ([''US7'', ''US77''],
                db_facilities ex_db @ [(''US7'', ex_facility 1), (''US77'', ex_facility 4)]), 3) \<and>
   distinct [''US7'', ''US77''] \<and> map_of (db_facilities ex_db) ''US77'' = None \<and>
   Facility_save ex_make_oar_id False (''F1'', ex_facility 2) (db_facilities ex_db) 0 =
     Some (Inr ((''F1'', ex_facility 2),
                AList.update ''F1'' (ex_facility 2) (db_facilities ex_db)), 0) \<and>
   map_of (AList.update ''F1'' (ex_facility 2) (db_facilities ex_db)) ''F1'' =
     Some (ex_facility 2) \<and>
   finds_free ex_make_oar_id (facility_country_code (ex_facility 1)) (db_facilities ex_db) 1 0 \<and>
   (\<exists>r g'. Facility_save ex_make_oar_id False ('''', ex_facility 1) (db_facilities ex_db) 0 =
            Some (r, g'))"
proof -
  note run = Facility_save_identifier
    [of ex_make_oar_id "''US''" "db_facilities ex_db" 0 "''US7''" 2 False "ex_facility 1"
        "Inr ((''US7'', ex_facility 1), db_facilities ex_db @ [(''US7'', ex_facility 1)])" 2
        "[ex_facility 1, ex_facility 4]" "[''US7'', ''US77'']"
        "db_facilities ex_db @ [(''US7'', ex_facility 1), (''US77'', ex_facility 4)]" 3
        "(''F1'', ex_facility 2)" 1]
  have t: "fst (ex_make_oar_id 0 ''US'') = ''F1'' \<and> map_of (db_facilities ex_db) ''F1'' \<noteq> None"
    by (simp add: ex_make_oar_id_def ex_db_def)
  from run ex_save_loop
  have l: "map_of (db_facilities ex_db) ''US7'' = None"
    by blast
  from run ex_save_all [of False]
  have a: "distinct [''US7'', ''US77''] \<and> map_of (db_facilities ex_db) ''US77'' = None"
    by simp
  from run ex_save_again
  have b: "map_of (AList.update ''F1'' (ex_facility 2) (db_facilities ex_db)) ''F1'' =
      Some (ex_facility 2)"
    by simp
  from run ex_finds_free_facility
  have c: "\<exists>r g'. Facility_save ex_make_oar_id False ('''', ex_facility 1) (db_facilities ex_db) 0 =
      Some (r, g')"
    by blast
  from t l a b c ex_save_loop ex_save_first [of False] ex_save_all [of False] ex_save_again
    ex_finds_free_facility
  show ?thesis
    by blast
qed

section \<open>Exclusivity\<close>



section \<open>Replacing a list\<close>




section \<open>The derived views of a facility\<close>

text \<open>
  Claim C9, as stated, has the view of the contributors be the set of the distinct
  contributing organizations. The method returns a dictionary with one entry for each
  label made of the contributor's name and the list's name. In the registry below one
  organization, contributor 7, has two active public lists with an item matched to the
  facility: the view has two entries, for one contributing organization.
\<close>

theorem contributors_not_distinct:
  "contributors ex_registry (''F1'', ex_facility 21) =
     Some [(''Acme (spring)'', 10), (''Acme (autumn)'', 10)] \<and>
   spec_contributors ex_registry ''F1'' = {7}"
proof -
  have "spec_contributors ex_registry ''F1'' = {7}"
    unfolding spec_contributors_def ex_registry_qualifying
    by (auto simp: ex_list_def)
  with ex_registry_contributors show ?thesis by simp
qed

text \<open>
  Claim C9, amended. When the foreign keys of the database point at stored rows, the
  three views are computed from the items that qualify: the items of the facility's
  matches with status \<open>AUTOMATIC\<close> or \<open>CONFIRMED\<close> whose list is active and public.
  \<open>other_names\<close> is the set of the names of those items that are neither empty nor
  the facility's own name, \<open>other_addresses\<close> the same for addresses. \<open>contributors\<close>
  is a dictionary with distinct keys, the keys being the labels
  \<open>"name of the contributor (name of the list)"\<close> of the qualifying items whose list has
  a contributor, and each entry giving for its label the admin account of a contributor
  with that label. All three are empty when no item qualifies.
\<close>

theorem derived_views:
  assumes "fk_valid d"
  shows "other_names d self =
           Some (spec_other_values d item_name (fst self) (facility_name (snd self))) \<and>
         other_addresses d self =
           Some (spec_other_values d item_address (fst self) (facility_address (snd self))) \<and>
         (\<exists>view. contributors d self = Some view \<and> distinct (map fst view) \<and>
            set view \<subseteq> qualifying_entries d (fst self) \<and>
            fst ` set view = fst ` qualifying_entries d (fst self)) \<and>
         (spec_qualifying d (fst self) = {} \<longrightarrow>
            other_names d self = Some {} \<and> other_addresses d self = Some {} \<and>
            contributors d self = Some [])"
proof -
  have n: "other_names d self =
           Some (spec_other_values d item_name (fst self) (facility_name (snd self)))"
    unfolding other_names_def by (rule other_values_spec [OF assms])
  have a: "other_addresses d self =
           Some (spec_other_values d item_address (fst self) (facility_address (snd self)))"
    unfolding other_addresses_def by (rule other_values_spec [OF assms])
  note c = contributors_spec [OF assms, of self]
  have "other_names d self = Some {} \<and> other_addresses d self = Some {} \<and>
            contributors d self = Some []" if "spec_qualifying d (fst self) = {}"
  proof -
    from that have "qualifying_entries d (fst self) = {}"
      and "\<And>field v. spec_other_values d field (fst self) v = {}"
      by (simp_all add: qualifying_entries_def spec_other_values_def)
    with n a c show ?thesis by auto
  qed
  with n a c show ?thesis by blast
qed

text \<open>
  The views of the facility of the registry above: the name of one item differs from
  the facility's, both addresses are the facility's.
\<close>

theorem derived_views_witness:
  "other_names ex_registry (''F1'', ex_facility 21) = Some {''Mill Ltd''} \<and>
   spec_other_values ex_registry item_name ''F1'' ''Mill'' = {''Mill Ltd''} \<and>
   other_addresses ex_registry (''F1'', ex_facility 21) = Some {} \<and>
   spec_other_values ex_registry item_address ''F1'' ''1 Road'' = {} \<and>
   contributors ex_registry (''F1'', ex_facility 21) =
     Some [(''Acme (spring)'', 10), (''Acme (autumn)'', 10)] \<and>
   fst ` qualifying_entries ex_registry ''F1'' = {''Acme (spring)'', ''Acme (autumn)''}"
proof -
  have f: "facility_name (ex_facility 21) = ''Mill'' \<and>
           facility_address (ex_facility 21) = ''1 Road''"
    by (simp add: ex_facility_def)
  from derived_views [OF ex_registry_fk_valid, of "(''F1'', ex_facility 21)"]
    ex_registry_other_names ex_registry_other_addresses ex_registry_contributors f
  show ?thesis
    by auto
qed

end
